theory Spec2Isabelle
  imports Complex_Main "HOL-Library.Word"
begin

unbundle bit_operations_syntax

text \<open>
  A shallow embedding of \<^verbatim>\<open>src/index.js\<close>: a Telegram trading bot that keeps an
  encrypted wallet export per user in a document store and drives a multi-step buy/sell
  conversation.  The chat transport, the document store, the trading provider and the
  cipher are the libraries the file calls; their answers are parameters of the model
  (record \<open>env\<close>), except where a claim depends on what they compute (the cipher, the
  decimal parser and comparison, hexadecimal decoding), which is written out.
\<close>

section \<open>Bytes and hexadecimal text\<close>

type_synonym byte = "8 word"

definition hex_digit :: "nat \<Rightarrow> char" where
  "hex_digit n = ''0123456789abcdef'' ! n"

definition hex_value :: "char \<Rightarrow> nat option" where
  "hex_value c = map_of
     [(CHR ''0'', 0), (CHR ''1'', 1), (CHR ''2'', 2), (CHR ''3'', 3), (CHR ''4'', 4),
      (CHR ''5'', 5), (CHR ''6'', 6), (CHR ''7'', 7), (CHR ''8'', 8), (CHR ''9'', 9),
      (CHR ''a'', 10), (CHR ''b'', 11), (CHR ''c'', 12), (CHR ''d'', 13), (CHR ''e'', 14),
      (CHR ''f'', 15), (CHR ''A'', 10), (CHR ''B'', 11), (CHR ''C'', 12), (CHR ''D'', 13),
      (CHR ''E'', 14), (CHR ''F'', 15)] c"

text \<open>\<^verbatim>\<open>buf.toString("hex")\<close>: two lower-case digits per byte.\<close>

fun to_hex :: "byte list \<Rightarrow> string" where
  "to_hex [] = []"
| "to_hex (b # bs) = hex_digit (unat b div 16) # hex_digit (unat b mod 16) # to_hex bs"

text \<open>\<^verbatim>\<open>Buffer.from(s, "hex")\<close>: pairs of digits are decoded from the left; decoding stops
  silently at the first pair that is not two hexadecimal digits (or at a trailing single
  character).\<close>

fun Buffer_from_hex :: "string \<Rightarrow> byte list" where
  "Buffer_from_hex (h # l # rest) =
     (case (hex_value h, hex_value l) of
        (Some x, Some y) \<Rightarrow> of_nat (16 * x + y) # Buffer_from_hex rest
      | _ \<Rightarrow> [])"
| "Buffer_from_hex _ = []"

section \<open>AES-256 (FIPS 197), as selected by \<^verbatim>\<open>"aes-256-cbc"\<close>\<close>

definition sbox_table :: "byte list" where
  "sbox_table = [
    0x63, 0x7c, 0x77, 0x7b, 0xf2, 0x6b, 0x6f, 0xc5, 0x30, 0x01, 0x67, 0x2b, 0xfe, 0xd7, 0xab, 0x76,
    0xca, 0x82, 0xc9, 0x7d, 0xfa, 0x59, 0x47, 0xf0, 0xad, 0xd4, 0xa2, 0xaf, 0x9c, 0xa4, 0x72, 0xc0,
    0xb7, 0xfd, 0x93, 0x26, 0x36, 0x3f, 0xf7, 0xcc, 0x34, 0xa5, 0xe5, 0xf1, 0x71, 0xd8, 0x31, 0x15,
    0x04, 0xc7, 0x23, 0xc3, 0x18, 0x96, 0x05, 0x9a, 0x07, 0x12, 0x80, 0xe2, 0xeb, 0x27, 0xb2, 0x75,
    0x09, 0x83, 0x2c, 0x1a, 0x1b, 0x6e, 0x5a, 0xa0, 0x52, 0x3b, 0xd6, 0xb3, 0x29, 0xe3, 0x2f, 0x84,
    0x53, 0xd1, 0x00, 0xed, 0x20, 0xfc, 0xb1, 0x5b, 0x6a, 0xcb, 0xbe, 0x39, 0x4a, 0x4c, 0x58, 0xcf,
    0xd0, 0xef, 0xaa, 0xfb, 0x43, 0x4d, 0x33, 0x85, 0x45, 0xf9, 0x02, 0x7f, 0x50, 0x3c, 0x9f, 0xa8,
    0x51, 0xa3, 0x40, 0x8f, 0x92, 0x9d, 0x38, 0xf5, 0xbc, 0xb6, 0xda, 0x21, 0x10, 0xff, 0xf3, 0xd2,
    0xcd, 0x0c, 0x13, 0xec, 0x5f, 0x97, 0x44, 0x17, 0xc4, 0xa7, 0x7e, 0x3d, 0x64, 0x5d, 0x19, 0x73,
    0x60, 0x81, 0x4f, 0xdc, 0x22, 0x2a, 0x90, 0x88, 0x46, 0xee, 0xb8, 0x14, 0xde, 0x5e, 0x0b, 0xdb,
    0xe0, 0x32, 0x3a, 0x0a, 0x49, 0x06, 0x24, 0x5c, 0xc2, 0xd3, 0xac, 0x62, 0x91, 0x95, 0xe4, 0x79,
    0xe7, 0xc8, 0x37, 0x6d, 0x8d, 0xd5, 0x4e, 0xa9, 0x6c, 0x56, 0xf4, 0xea, 0x65, 0x7a, 0xae, 0x08,
    0xba, 0x78, 0x25, 0x2e, 0x1c, 0xa6, 0xb4, 0xc6, 0xe8, 0xdd, 0x74, 0x1f, 0x4b, 0xbd, 0x8b, 0x8a,
    0x70, 0x3e, 0xb5, 0x66, 0x48, 0x03, 0xf6, 0x0e, 0x61, 0x35, 0x57, 0xb9, 0x86, 0xc1, 0x1d, 0x9e,
    0xe1, 0xf8, 0x98, 0x11, 0x69, 0xd9, 0x8e, 0x94, 0x9b, 0x1e, 0x87, 0xe9, 0xce, 0x55, 0x28, 0xdf,
    0x8c, 0xa1, 0x89, 0x0d, 0xbf, 0xe6, 0x42, 0x68, 0x41, 0x99, 0x2d, 0x0f, 0xb0, 0x54, 0xbb, 0x16]"

definition inv_sbox_table :: "byte list" where
  "inv_sbox_table = [
    0x52, 0x09, 0x6a, 0xd5, 0x30, 0x36, 0xa5, 0x38, 0xbf, 0x40, 0xa3, 0x9e, 0x81, 0xf3, 0xd7, 0xfb,
    0x7c, 0xe3, 0x39, 0x82, 0x9b, 0x2f, 0xff, 0x87, 0x34, 0x8e, 0x43, 0x44, 0xc4, 0xde, 0xe9, 0xcb,
    0x54, 0x7b, 0x94, 0x32, 0xa6, 0xc2, 0x23, 0x3d, 0xee, 0x4c, 0x95, 0x0b, 0x42, 0xfa, 0xc3, 0x4e,
    0x08, 0x2e, 0xa1, 0x66, 0x28, 0xd9, 0x24, 0xb2, 0x76, 0x5b, 0xa2, 0x49, 0x6d, 0x8b, 0xd1, 0x25,
    0x72, 0xf8, 0xf6, 0x64, 0x86, 0x68, 0x98, 0x16, 0xd4, 0xa4, 0x5c, 0xcc, 0x5d, 0x65, 0xb6, 0x92,
    0x6c, 0x70, 0x48, 0x50, 0xfd, 0xed, 0xb9, 0xda, 0x5e, 0x15, 0x46, 0x57, 0xa7, 0x8d, 0x9d, 0x84,
    0x90, 0xd8, 0xab, 0x00, 0x8c, 0xbc, 0xd3, 0x0a, 0xf7, 0xe4, 0x58, 0x05, 0xb8, 0xb3, 0x45, 0x06,
    0xd0, 0x2c, 0x1e, 0x8f, 0xca, 0x3f, 0x0f, 0x02, 0xc1, 0xaf, 0xbd, 0x03, 0x01, 0x13, 0x8a, 0x6b,
    0x3a, 0x91, 0x11, 0x41, 0x4f, 0x67, 0xdc, 0xea, 0x97, 0xf2, 0xcf, 0xce, 0xf0, 0xb4, 0xe6, 0x73,
    0x96, 0xac, 0x74, 0x22, 0xe7, 0xad, 0x35, 0x85, 0xe2, 0xf9, 0x37, 0xe8, 0x1c, 0x75, 0xdf, 0x6e,
    0x47, 0xf1, 0x1a, 0x71, 0x1d, 0x29, 0xc5, 0x89, 0x6f, 0xb7, 0x62, 0x0e, 0xaa, 0x18, 0xbe, 0x1b,
    0xfc, 0x56, 0x3e, 0x4b, 0xc6, 0xd2, 0x79, 0x20, 0x9a, 0xdb, 0xc0, 0xfe, 0x78, 0xcd, 0x5a, 0xf4,
    0x1f, 0xdd, 0xa8, 0x33, 0x88, 0x07, 0xc7, 0x31, 0xb1, 0x12, 0x10, 0x59, 0x27, 0x80, 0xec, 0x5f,
    0x60, 0x51, 0x7f, 0xa9, 0x19, 0xb5, 0x4a, 0x0d, 0x2d, 0xe5, 0x7a, 0x9f, 0x93, 0xc9, 0x9c, 0xef,
    0xa0, 0xe0, 0x3b, 0x4d, 0xae, 0x2a, 0xf5, 0xb0, 0xc8, 0xeb, 0xbb, 0x3c, 0x83, 0x53, 0x99, 0x61,
    0x17, 0x2b, 0x04, 0x7e, 0xba, 0x77, 0xd6, 0x26, 0xe1, 0x69, 0x14, 0x63, 0x55, 0x21, 0x0c, 0x7d]"

definition SubByte :: "byte \<Rightarrow> byte" where
  "SubByte b = sbox_table ! unat b"

definition InvSubByte :: "byte \<Rightarrow> byte" where
  "InvSubByte b = inv_sbox_table ! unat b"

definition SubBytes :: "byte list \<Rightarrow> byte list" where
  "SubBytes s = map SubByte s"

definition InvSubBytes :: "byte list \<Rightarrow> byte list" where
  "InvSubBytes s = map InvSubByte s"

text \<open>The state is kept column by column: byte \<open>r + 4 * c\<close> is row \<open>r\<close> of column \<open>c\<close>.\<close>

fun ShiftRows :: "byte list \<Rightarrow> byte list" where
  "ShiftRows [s0, s1, s2, s3, s4, s5, s6, s7, s8, s9, s10, s11, s12, s13, s14, s15] =
     [s0, s5, s10, s15, s4, s9, s14, s3, s8, s13, s2, s7, s12, s1, s6, s11]"
| "ShiftRows s = s"

fun InvShiftRows :: "byte list \<Rightarrow> byte list" where
  "InvShiftRows [s0, s1, s2, s3, s4, s5, s6, s7, s8, s9, s10, s11, s12, s13, s14, s15] =
     [s0, s13, s10, s7, s4, s1, s14, s11, s8, s5, s2, s15, s12, s9, s6, s3]"
| "InvShiftRows s = s"

definition xtime :: "byte \<Rightarrow> byte" where
  "xtime a = (if bit a 7 then push_bit 1 a XOR 0x1b else push_bit 1 a)"

definition mul3 :: "byte \<Rightarrow> byte" where "mul3 a = xtime a XOR a"
definition mul9 :: "byte \<Rightarrow> byte" where "mul9 a = xtime (xtime (xtime a)) XOR a"
definition mul11 :: "byte \<Rightarrow> byte" where "mul11 a = xtime (xtime (xtime a)) XOR xtime a XOR a"
definition mul13 :: "byte \<Rightarrow> byte" where "mul13 a = xtime (xtime (xtime a)) XOR xtime (xtime a) XOR a"
definition mul14 :: "byte \<Rightarrow> byte" where
  "mul14 a = xtime (xtime (xtime a)) XOR xtime (xtime a) XOR xtime a"

fun MixColumns :: "byte list \<Rightarrow> byte list" where
  "MixColumns (a0 # a1 # a2 # a3 # rest) =
     (xtime a0 XOR mul3 a1 XOR a2 XOR a3) #
     (a0 XOR xtime a1 XOR mul3 a2 XOR a3) #
     (a0 XOR a1 XOR xtime a2 XOR mul3 a3) #
     (mul3 a0 XOR a1 XOR a2 XOR xtime a3) # MixColumns rest"
| "MixColumns s = s"

fun InvMixColumns :: "byte list \<Rightarrow> byte list" where
  "InvMixColumns (a0 # a1 # a2 # a3 # rest) =
     (mul14 a0 XOR mul11 a1 XOR mul13 a2 XOR mul9 a3) #
     (mul9 a0 XOR mul14 a1 XOR mul11 a2 XOR mul13 a3) #
     (mul13 a0 XOR mul9 a1 XOR mul14 a2 XOR mul11 a3) #
     (mul11 a0 XOR mul13 a1 XOR mul9 a2 XOR mul14 a3) # InvMixColumns rest"
| "InvMixColumns s = s"

definition xor_bytes :: "byte list \<Rightarrow> byte list \<Rightarrow> byte list" where
  "xor_bytes xs ys = map (\<lambda>(x, y). x XOR y) (zip xs ys)"

definition AddRoundKey :: "byte list \<Rightarrow> byte list \<Rightarrow> byte list" where
  "AddRoundKey rk s = xor_bytes s rk"

function chunks :: "nat \<Rightarrow> 'a list \<Rightarrow> 'a list list" where
  "chunks n xs = (if n = 0 \<or> xs = [] then [] else take n xs # chunks n (drop n xs))"
  by pat_completeness auto
termination
  by (relation "measure (\<lambda>(n, xs). length xs)") auto

declare chunks.simps [simp del]

definition RotWord :: "byte list \<Rightarrow> byte list" where
  "RotWord w = tl w @ [hd w]"

definition SubWord :: "byte list \<Rightarrow> byte list" where
  "SubWord w = map SubByte w"

definition Rcon :: "nat \<Rightarrow> byte list" where
  "Rcon j = [[0x01, 0x02, 0x04, 0x08, 0x10, 0x20, 0x40] ! (j - 1), 0, 0, 0]"

text \<open>One step of the key schedule for \<open>Nk = 8\<close>: the word with index \<open>length ws\<close>.\<close>

definition next_word :: "byte list list \<Rightarrow> byte list" where
  "next_word ws =
     (let i = length ws;
          temp = last ws;
          temp' = (if i mod 8 = 0 then xor_bytes (SubWord (RotWord temp)) (Rcon (i div 8))
                   else if i mod 8 = 4 then SubWord temp
                   else temp)
      in xor_bytes (ws ! (i - 8)) temp')"

fun expand :: "nat \<Rightarrow> byte list list \<Rightarrow> byte list list" where
  "expand 0 ws = ws"
| "expand (Suc n) ws = expand n (ws @ [next_word ws])"

text \<open>The 60 words of the schedule, grouped into the 15 round keys.\<close>

definition KeyExpansion :: "byte list \<Rightarrow> byte list list" where
  "KeyExpansion key = chunks 16 (concat (expand 52 (chunks 4 key)))"

definition Cipher :: "byte list list \<Rightarrow> byte list \<Rightarrow> byte list" where
  "Cipher rks inp =
     (let s = AddRoundKey (hd rks) inp;
          s = fold (\<lambda>rk s. AddRoundKey rk (MixColumns (ShiftRows (SubBytes s))))
                (butlast (tl rks)) s
      in AddRoundKey (last rks) (ShiftRows (SubBytes s)))"

definition InvCipher :: "byte list list \<Rightarrow> byte list \<Rightarrow> byte list" where
  "InvCipher rks inp =
     (let s = InvSubBytes (InvShiftRows (AddRoundKey (last rks) inp));
          s = fold (\<lambda>rk s. InvSubBytes (InvShiftRows (InvMixColumns (AddRoundKey rk s))))
                (rev (butlast (tl rks))) s
      in AddRoundKey (hd rks) s)"

section \<open>CBC mode with PKCS#7 padding\<close>

definition pkcs7_pad :: "byte list \<Rightarrow> byte list" where
  "pkcs7_pad p = (let n = 16 - length p mod 16 in p @ replicate n (of_nat n))"

definition pkcs7_unpad :: "byte list \<Rightarrow> byte list option" where
  "pkcs7_unpad p =
     (if p = [] then None
      else let n = unat (last p) in
        if n = 0 \<or> 16 < n \<or> length p < n then None
        else if drop (length p - n) p = replicate n (last p)
          then Some (take (length p - n) p)
          else None)"

fun cbc_encrypt :: "(byte list \<Rightarrow> byte list) \<Rightarrow> byte list \<Rightarrow> byte list list \<Rightarrow> byte list list" where
  "cbc_encrypt E prev [] = []"
| "cbc_encrypt E prev (p # ps) = (let c = E (xor_bytes p prev) in c # cbc_encrypt E c ps)"

fun cbc_decrypt :: "(byte list \<Rightarrow> byte list) \<Rightarrow> byte list \<Rightarrow> byte list list \<Rightarrow> byte list list" where
  "cbc_decrypt D prev [] = []"
| "cbc_decrypt D prev (c # cs) = xor_bytes (D c) prev # cbc_decrypt D c cs"

section \<open>Errors\<close>

text \<open>A thrown JavaScript error, reduced to the properties the program inspects
  (\<^verbatim>\<open>error.name\<close>, \<^verbatim>\<open>error.status\<close>) and its message.\<close>

record js_error =
  name :: string
  status :: "int option"
  message :: string

definition Error :: "string \<Rightarrow> js_error" where
  "Error msg = \<lparr>name = ''Error'', status = None, message = msg\<rparr>"

definition TypeError :: "string \<Rightarrow> js_error" where
  "TypeError msg = \<lparr>name = ''TypeError'', status = None, message = msg\<rparr>"

definition RangeError :: "string \<Rightarrow> js_error" where
  "RangeError msg = \<lparr>name = ''RangeError'', status = None, message = msg\<rparr>"

definition SyntaxError :: "string \<Rightarrow> js_error" where
  "SyntaxError msg = \<lparr>name = ''SyntaxError'', status = None, message = msg\<rparr>"

section \<open>Encryption utilities (\<^verbatim>\<open>encrypt\<close>, \<^verbatim>\<open>decrypt\<close>)\<close>

text \<open>Text is represented by its UTF-8 bytes: a \<open>char\<close> is one byte.\<close>

definition utf8_bytes :: "string \<Rightarrow> byte list" where
  "utf8_bytes s = map (\<lambda>c. of_nat (of_char c)) s"

definition utf8_text :: "byte list \<Rightarrow> string" where
  "utf8_text bs = map (\<lambda>b. char_of (unat b)) bs"

text \<open>\<^verbatim>\<open>Buffer.from(process.env.ENCRYPTION_KEY, "hex")\<close> followed by the checks of
  \<^verbatim>\<open>crypto.createCipheriv("aes-256-cbc", key, iv)\<close> (the same for
  \<^verbatim>\<open>createDecipheriv\<close>): a 32-byte key and a 16-byte initialisation vector.\<close>

definition load_key :: "(string \<rightharpoonup> string) \<Rightarrow> byte list \<Rightarrow> js_error + byte list" where
  "load_key process_env iv =
     (case process_env ''ENCRYPTION_KEY'' of
        None \<Rightarrow> Inl (TypeError ''The first argument must be of type string'')
      | Some hex \<Rightarrow>
          let encryptionKey = Buffer_from_hex hex in
          if length encryptionKey \<noteq> 32 then Inl (RangeError ''Invalid key length'')
          else if length iv \<noteq> 16 then Inl (TypeError ''Invalid initialization vector'')
          else Inr encryptionKey)"

definition encrypt :: "(string \<rightharpoonup> string) \<Rightarrow> string \<Rightarrow> byte list \<Rightarrow> js_error + string" where
  "encrypt process_env text iv =
     (case load_key process_env iv of
        Inl e \<Rightarrow> Inl e
      | Inr encryptionKey \<Rightarrow>
          Inr (to_hex (concat (cbc_encrypt (Cipher (KeyExpansion encryptionKey)) iv
                 (chunks 16 (pkcs7_pad (utf8_bytes text)))))))"

text \<open>\<^verbatim>\<open>decipher.update(encrypted, "hex", "utf8") + decipher.final("utf8")\<close>: a hex string of
  odd length is refused, the decoded data must be a positive number of whole blocks, and
  the padding of the last block is checked and removed.\<close>

definition decrypt :: "(string \<rightharpoonup> string) \<Rightarrow> string \<Rightarrow> byte list \<Rightarrow> js_error + string" where
  "decrypt process_env encrypted iv =
     (case load_key process_env iv of
        Inl e \<Rightarrow> Inl e
      | Inr encryptionKey \<Rightarrow>
          if odd (length encrypted) then Inl (TypeError ''The argument encoding is invalid'')
          else
            let data = Buffer_from_hex encrypted in
            if data \<noteq> [] \<and> length data mod 16 = 0 then
              (case pkcs7_unpad (concat (cbc_decrypt (InvCipher (KeyExpansion encryptionKey)) iv
                      (chunks 16 data))) of
                 None \<Rightarrow> Inl (Error ''bad decrypt'')
               | Some p \<Rightarrow> Inr (utf8_text p))
            else Inl (Error ''wrong final block length''))"

section \<open>Start-up validation of the environment\<close>





section \<open>Decimal amounts (\<^verbatim>\<open>decimal.js\<close>)\<close>

text \<open>A \<^verbatim>\<open>Decimal\<close> is not-a-number, an infinity, or an exact decimal fraction of any
  length; the fractions are kept as rationals, so no digit is ever rounded away.\<close>

datatype decimal = NaN | PosInfinity | NegInfinity | Finite rat

definition isNaN :: "decimal \<Rightarrow> bool" where
  "isNaN x \<longleftrightarrow> x = NaN"

text \<open>\<^verbatim>\<open>x.greaterThan(y)\<close> is \<^verbatim>\<open>x.cmp(y) > 0\<close>: false as soon as one side is NaN, the order of
  the extended number line otherwise.\<close>

fun greaterThan :: "decimal \<Rightarrow> decimal \<Rightarrow> bool" where
  "greaterThan NaN y = False"
| "greaterThan x NaN = False"
| "greaterThan PosInfinity y = (y \<noteq> PosInfinity)"
| "greaterThan NegInfinity y = False"
| "greaterThan (Finite a) PosInfinity = False"
| "greaterThan (Finite a) NegInfinity = True"
| "greaterThan (Finite a) (Finite b) = (b < a)"

definition negated :: "decimal \<Rightarrow> decimal" where
  "negated x = (case x of NaN \<Rightarrow> NaN | PosInfinity \<Rightarrow> NegInfinity
                | NegInfinity \<Rightarrow> PosInfinity | Finite a \<Rightarrow> Finite (- a))"

definition is_digit :: "char \<Rightarrow> bool" where
  "is_digit c \<longleftrightarrow> c \<in> set ''0123456789''"

definition digit_value :: "char \<Rightarrow> int" where
  "digit_value c = of_char c - 48"

definition digits_value :: "string \<Rightarrow> int" where
  "digits_value ds = foldl (\<lambda>a c. 10 * a + digit_value c) 0 ds"

text \<open>The library's test \<^verbatim>\<open>/^(\d+(\.\d*)?|\.\d+)(e[+-]?\d+)?$/i\<close> on the text after its
  sign: the digits before the point, the digits after it, and the exponent.\<close>

definition isDecimal :: "string \<Rightarrow> (string \<times> string \<times> int) option" where
  "isDecimal v =
     (let ip = takeWhile is_digit v;
          r1 = dropWhile is_digit v;
          (fp, r2) = (case r1 of
                        [] \<Rightarrow> ([], [])
                      | c # r \<Rightarrow> if c = CHR ''.'' then (takeWhile is_digit r, dropWhile is_digit r)
                                 else ([], r1))
      in if ip = [] \<and> fp = [] then None
         else (case r2 of
                 [] \<Rightarrow> Some (ip, fp, 0)
               | c # r \<Rightarrow>
                   if c \<noteq> CHR ''e'' \<and> c \<noteq> CHR ''E'' then None
                   else
                     let (neg, ds) = (case r of
                                        [] \<Rightarrow> (False, [])
                                      | s # r' \<Rightarrow> if s = CHR ''-'' then (True, r')
                                                  else if s = CHR ''+'' then (False, r')
                                                  else (False, r))
                     in if ds \<noteq> [] \<and> list_all is_digit ds
                        then Some (ip, fp, if neg then - digits_value ds else digits_value ds)
                        else None))"

definition maxE :: int where
  "maxE = 9000000000000000"

definition scale10 :: "int \<Rightarrow> int \<Rightarrow> rat" where
  "scale10 m e = (if 0 \<le> e then of_int m * 10 ^ nat e else of_int m / 10 ^ nat (- e))"

text \<open>\<^verbatim>\<open>parseDecimal\<close>: the value of the digits, exactly; a number whose leading digit has
  an exponent beyond \<open>maxE\<close> becomes infinite, one below \<open>- maxE\<close> becomes zero.\<close>

definition parseDecimal :: "string \<Rightarrow> string \<Rightarrow> int \<Rightarrow> decimal" where
  "parseDecimal ip fp ex =
     (let str = ip @ fp;
          e = int (length ip) + ex;
          i = length (takeWhile (\<lambda>c. c = CHR ''0'') str)
      in if i = length str then Finite 0
         else if maxE < e - int i - 1 then PosInfinity
         else if e - int i - 1 < - maxE then Finite 0
         else Finite (scale10 (digits_value str) (ex - int (length fp))))"

text \<open>The library's remaining notations: literals with a base prefix (\<^verbatim>\<open>0x\<close>, \<^verbatim>\<open>0b\<close>,
  \<^verbatim>\<open>0o\<close>) and, in its later versions, digits separated by underscores.\<close>

definition other_notation :: "string \<Rightarrow> bool" where
  "other_notation v \<longleftrightarrow>
     CHR ''_'' \<in> set v \<or>
     (case v of z # b # _ \<Rightarrow> z = CHR ''0'' \<and> b \<in> set ''xXbBoO'' | _ \<Rightarrow> False)"

text \<open>\<^verbatim>\<open>new Decimal(v)\<close> for a string: a sign, then a decimal numeral, \<^verbatim>\<open>Infinity\<close> or
  \<^verbatim>\<open>NaN\<close>.  What the library makes of its other notations is the parameter
  \<open>parseOther\<close>; everything else throws.\<close>

definition new_Decimal :: "(string \<Rightarrow> decimal option) \<Rightarrow> string \<Rightarrow> js_error + decimal" where
  "new_Decimal parseOther v =
     (let (neg, v') = (case v of
                         [] \<Rightarrow> (False, v)
                       | c # r \<Rightarrow> if c = CHR ''-'' then (True, r)
                                  else if c = CHR ''+'' then (False, r)
                                  else (False, v));
          x = (case isDecimal v' of
                 Some (ip, fp, ex) \<Rightarrow> Some (parseDecimal ip fp ex)
               | None \<Rightarrow> if v' = ''Infinity'' then Some PosInfinity
                         else if v' = ''NaN'' then Some NaN
                         else if other_notation v' then parseOther v'
                         else None)
      in case x of
           None \<Rightarrow> Inl (Error (''[DecimalError] Invalid argument: '' @ v))
         | Some d \<Rightarrow> Inr (if neg then negated d else d))"

section \<open>Strings\<close>

text \<open>\<^verbatim>\<open>String.prototype.toLowerCase\<close> on the ASCII letters; other bytes are kept.\<close>

definition toLowerCase :: "string \<Rightarrow> string" where
  "toLowerCase s =
     map (\<lambda>c. case map_of (zip ''ABCDEFGHIJKLMNOPQRSTUVWXYZ'' ''abcdefghijklmnopqrstuvwxyz'') c of
                 None \<Rightarrow> c
               | Some l \<Rightarrow> l) s"

text \<open>\<^verbatim>\<open>s.slice(11, -1)\<close>.\<close>

definition slice_11_minus_1 :: "string \<Rightarrow> string" where
  "slice_11_minus_1 s = drop 11 (take (length s - 1) s)"

fun digits_of :: "nat \<Rightarrow> string" where
  "digits_of n = (if n < 10 then [hex_digit n] else digits_of (n div 10) @ [hex_digit (n mod 10)])"

declare digits_of.simps [simp del]

text \<open>\<^verbatim>\<open>user.id.toString()\<close> for an integer identifier.\<close>

definition toString :: "int \<Rightarrow> string" where
  "toString i = (if i < 0 then CHR ''-'' # digits_of (nat (- i)) else digits_of (nat i))"

section \<open>Data of the collaborators\<close>

type_synonym user_id = int

datatype address = WalletAddress (getId: string)

record wallet_data =
  walletId :: string
  seed :: string

record wallet =
  wallet_export :: wallet_data
  getDefaultAddress :: address

datatype json = WalletJson wallet_data | OtherJson string

text \<open>A stored document \<^verbatim>\<open>{_id, ivString, encryptedWalletData}\<close>; \<^verbatim>\<open>_id\<close> is its key.\<close>

record doc =
  ivString :: string
  encryptedWalletData :: string

record trade_intent =
  amount :: decimal
  fromAssetId :: string
  toAssetId :: string

text \<open>A submitted trade, with \<^verbatim>\<open>trade.getTransaction().getTransactionLink()\<close>.\<close>

record trade =
  getTransactionLink :: string

record balance_map =
  balances_size :: nat
  balances_toString :: string

definition Coinbase_assets_Eth :: string where
  "Coinbase_assets_Eth = ''eth''"

section \<open>State: conversation store, document store, history of calls\<close>

text \<open>The per-user state object; an absent property is \<open>None\<close>.\<close>

record user_state =
  buyRequested :: "bool option"
  sellRequested :: "bool option"
  step :: "string option"
  asset :: "string option"
  address :: "address option"
  lastMessageId :: "int option"

definition empty_state :: user_state where
  "empty_state = \<lparr>buyRequested = None, sellRequested = None, step = None, asset = None,
                   address = None, lastMessageId = None\<rparr>"

text \<open>Every call that leaves the process, newest first.\<close>

datatype event =
    Reply user_id string
  | DbGet string
  | DbPut string doc
  | RandomBytes nat
  | WalletCreate
  | WalletImport json
  | GetBalance address string
  | ListBalances address
  | CreateTrade address trade_intent
  | TradeWait trade

record world =
  userStates :: "user_id \<rightharpoonup> user_state"
  db :: "string \<rightharpoonup> doc"
  events :: "event list"

text \<open>What the collaborators answer.  An answer may depend on everything that has
  happened so far, which is the history of calls.\<close>

record env =
  process_env :: "string \<rightharpoonup> string"
  reply_result :: "event list \<Rightarrow> user_id \<Rightarrow> string \<Rightarrow> js_error + int"
  db_fault :: "event list \<Rightarrow> js_error option"
  random_source :: "event list \<Rightarrow> byte list"
  JSON_stringify :: "wallet_data \<Rightarrow> string"
  JSON_parse_result :: "string \<Rightarrow> json option"
  Wallet_create_result :: "event list \<Rightarrow> js_error + wallet"
  Wallet_import_result :: "event list \<Rightarrow> json \<Rightarrow> js_error + wallet"
  getBalance_result :: "event list \<Rightarrow> address \<Rightarrow> string \<Rightarrow> js_error + decimal"
  listBalances_result :: "event list \<Rightarrow> address \<Rightarrow> js_error + balance_map"
  createTrade_result :: "event list \<Rightarrow> address \<Rightarrow> trade_intent \<Rightarrow> js_error + trade"
  wait_result :: "event list \<Rightarrow> trade \<Rightarrow> js_error option"
  parseOther :: "string \<Rightarrow> decimal option"

section \<open>Asynchronous functions: a state transformer that resolves or rejects\<close>

type_synonym 'a promise = "world \<Rightarrow> (js_error + 'a) \<times> world"

definition resolve :: "'a \<Rightarrow> 'a promise" where
  "resolve x = (\<lambda>w. (Inr x, w))"

definition reject :: "js_error \<Rightarrow> 'a promise" where
  "reject e = (\<lambda>w. (Inl e, w))"

definition settle :: "js_error + 'a \<Rightarrow> 'a promise" where
  "settle r = (\<lambda>w. (r, w))"

definition await :: "'a promise \<Rightarrow> ('a \<Rightarrow> 'b promise) \<Rightarrow> 'b promise" where
  "await m f = (\<lambda>w. case m w of (Inl e, w') \<Rightarrow> (Inl e, w') | (Inr x, w') \<Rightarrow> f x w')"

definition try_catch :: "'a promise \<Rightarrow> (js_error \<Rightarrow> 'a promise) \<Rightarrow> 'a promise" where
  "try_catch m h = (\<lambda>w. case m w of (Inl e, w') \<Rightarrow> h e w' | (Inr x, w') \<Rightarrow> (Inr x, w'))"

definition effect :: "(world \<Rightarrow> world) \<Rightarrow> unit promise" where
  "effect f = (\<lambda>w. (Inr (), f w))"

definition call :: "event \<Rightarrow> (event list \<Rightarrow> js_error + 'a) \<Rightarrow> 'a promise" where
  "call ev answer = (\<lambda>w. (answer (events w), w\<lparr>events := ev # events w\<rparr>))"

section \<open>State management functions\<close>

definition spread :: "user_state \<Rightarrow> user_state \<Rightarrow> user_state" where
  "spread currentState newState =
     \<lparr>buyRequested = (case buyRequested newState of None \<Rightarrow> buyRequested currentState | Some v \<Rightarrow> Some v),
      sellRequested = (case sellRequested newState of None \<Rightarrow> sellRequested currentState | Some v \<Rightarrow> Some v),
      step = (case step newState of None \<Rightarrow> step currentState | Some v \<Rightarrow> Some v),
      asset = (case asset newState of None \<Rightarrow> asset currentState | Some v \<Rightarrow> Some v),
      address = (case address newState of None \<Rightarrow> address currentState | Some v \<Rightarrow> Some v),
      lastMessageId = (case lastMessageId newState of None \<Rightarrow> lastMessageId currentState | Some v \<Rightarrow> Some v)\<rparr>"

definition getUserState :: "world \<Rightarrow> user_id \<Rightarrow> user_state" where
  "getUserState w user = (case userStates w user of None \<Rightarrow> empty_state | Some s \<Rightarrow> s)"

definition updateUserState :: "user_id \<Rightarrow> user_state \<Rightarrow> world \<Rightarrow> world" where
  "updateUserState user newState w =
     w\<lparr>userStates := (userStates w)(user \<mapsto> spread (getUserState w user) newState)\<rparr>"

definition clearUserState :: "user_id \<Rightarrow> world \<Rightarrow> world" where
  "clearUserState user w = w\<lparr>userStates := (userStates w)(user := None)\<rparr>"

text \<open>Truthiness of a flag that is either absent or \<^verbatim>\<open>true\<close>.\<close>

definition truthy :: "bool option \<Rightarrow> bool" where
  "truthy b \<longleftrightarrow> b = Some True"

section \<open>Message handling functions\<close>

definition ctx_reply :: "env \<Rightarrow> user_id \<Rightarrow> string \<Rightarrow> int promise" where
  "ctx_reply env user text = call (Reply user text) (\<lambda>h. reply_result env h user text)"

definition sendReply :: "env \<Rightarrow> user_id \<Rightarrow> string \<Rightarrow> int promise" where
  "sendReply env user text =
     try_catch
       (await (ctx_reply env user text) (\<lambda>message_id.
        await (effect (updateUserState user (empty_state\<lparr>lastMessageId := Some message_id\<rparr>))) (\<lambda>_.
        resolve message_id)))
       (\<lambda>error. reject error)"

section \<open>The document store\<close>

definition not_found :: js_error where
  "not_found = \<lparr>name = ''not_found'', status = Some 404, message = ''missing''\<rparr>"

definition conflict :: js_error where
  "conflict = \<lparr>name = ''conflict'', status = Some 409, message = ''Document update conflict''\<rparr>"

text \<open>\<^verbatim>\<open>db.get(id)\<close>: the store may fail as a whole; a working store answers with the
  document or with its missing-document error.\<close>

definition db_get :: "env \<Rightarrow> string \<Rightarrow> doc promise" where
  "db_get env key = (\<lambda>w.
     call (DbGet key) (\<lambda>h. case db_fault env h of
                            Some e \<Rightarrow> Inl e
                          | None \<Rightarrow> (case db w key of None \<Rightarrow> Inl not_found | Some d \<Rightarrow> Inr d)) w)"

text \<open>\<^verbatim>\<open>db.put(doc)\<close> of a document without a revision: refused when the identifier is
  taken.\<close>

definition db_put :: "env \<Rightarrow> string \<Rightarrow> doc \<Rightarrow> unit promise" where
  "db_put env key d = (\<lambda>w.
     await (call (DbPut key d) (\<lambda>h. case db_fault env h of
                                     Some e \<Rightarrow> Inl e
                                   | None \<Rightarrow> (case db w key of None \<Rightarrow> Inr () | Some _ \<Rightarrow> Inl conflict)))
       (\<lambda>_. effect (\<lambda>w'. w'\<lparr>db := (db w')(key \<mapsto> d)\<rparr>)) w)"

section \<open>Wallet management\<close>

definition randomBytes :: "env \<Rightarrow> nat \<Rightarrow> byte list promise" where
  "randomBytes env n = call (RandomBytes n) (\<lambda>h. Inr (take n (random_source env h @ replicate n 0)))"

definition JSON_parse :: "env \<Rightarrow> string \<Rightarrow> js_error + json" where
  "JSON_parse env text = (case JSON_parse_result env text of
                            None \<Rightarrow> Inl (SyntaxError ''Unexpected token'')
                          | Some v \<Rightarrow> Inr v)"

text \<open>The body of the inner \<^verbatim>\<open>try\<close>: load the stored wallet.\<close>

definition load_wallet :: "env \<Rightarrow> user_id \<Rightarrow> wallet promise" where
  "load_wallet env user =
     await (db_get env (toString user)) (\<lambda>result.
     let iv = Buffer_from_hex (ivString result) in
     await (settle (decrypt (process_env env) (encryptedWalletData result) iv)) (\<lambda>text.
     await (settle (JSON_parse env text)) (\<lambda>walletData.
     call (WalletImport walletData) (\<lambda>h. Wallet_import_result env h walletData))))"

text \<open>The first branch of the inner \<^verbatim>\<open>catch\<close>: create a wallet and store its export.\<close>

definition create_wallet :: "env \<Rightarrow> user_id \<Rightarrow> wallet promise" where
  "create_wallet env user =
     await (call WalletCreate (Wallet_create_result env)) (\<lambda>wallet.
     await (randomBytes env 16) (\<lambda>iv.
     await (settle (encrypt (process_env env) (JSON_stringify env (wallet_export wallet)) iv))
       (\<lambda>encryptedWalletData.
     await (db_put env (toString user)
              \<lparr>ivString = to_hex iv, encryptedWalletData = encryptedWalletData\<rparr>) (\<lambda>_.
     resolve wallet))))"

definition is_not_found :: "js_error \<Rightarrow> bool" where
  "is_not_found error \<longleftrightarrow> name error = ''not_found'' \<or> status error = Some 404"

definition getOrCreateAddress :: "env \<Rightarrow> user_id \<Rightarrow> address promise" where
  "getOrCreateAddress env user = (\<lambda>w.
     try_catch
       (let cachedState = getUserState w user in
        case address cachedState of
          Some a \<Rightarrow> resolve a
        | None \<Rightarrow>
            await (try_catch (load_wallet env user)
                     (\<lambda>error. if is_not_found error then create_wallet env user
                               else reject error)) (\<lambda>wallet.
            let address = getDefaultAddress wallet in
            await (effect (updateUserState user (empty_state\<lparr>address := Some address\<rparr>))) (\<lambda>_.
            resolve address)))
       (\<lambda>error. reject error) w)"

section \<open>Command handlers\<close>

definition handleCheckBalance :: "env \<Rightarrow> user_id \<Rightarrow> unit promise" where
  "handleCheckBalance env user =
     try_catch
       (await (getOrCreateAddress env user) (\<lambda>userAddress.
        await (call (ListBalances userAddress) (\<lambda>h. listBalances_result env h userAddress)) (\<lambda>balanceMap.
        let balancesString = (if 0 < balances_size balanceMap
                              then slice_11_minus_1 (balances_toString balanceMap)
                              else ''You have no balances.'') in
        await (sendReply env user (''Your current balances are as follows:\<newline>'' @ balancesString)) (\<lambda>_.
        resolve ()))))
       (\<lambda>error. await (ctx_reply env user ''Error checking balance. Please try again later.'') (\<lambda>_.
                 resolve ()))"

definition handleDeposit :: "env \<Rightarrow> user_id \<Rightarrow> unit promise" where
  "handleDeposit env user =
     try_catch
       (await (getOrCreateAddress env user) (\<lambda>userAddress.
        await (sendReply env user
                 ''_Note: As this is a test app, make sure to deposit only small amounts of ETH!_'') (\<lambda>_.
        await (sendReply env user ''Please send your ETH to the following address on Base:'') (\<lambda>_.
        await (sendReply env user (''`'' @ getId userAddress @ ''`'')) (\<lambda>_.
        resolve ())))))
       (\<lambda>error. await (ctx_reply env user ''Error generating deposit address. Please try again later.'') (\<lambda>_.
                 resolve ()))"

definition handleInitialBuy :: "env \<Rightarrow> user_id \<Rightarrow> unit promise" where
  "handleInitialBuy env user =
     await (effect (updateUserState user (empty_state\<lparr>buyRequested := Some True, step := Some ''asset''\<rparr>))) (\<lambda>_.
     await (sendReply env user
              ''Please respond with the asset you would like to buy (ticker or contract address).'') (\<lambda>_.
     resolve ()))"

definition handleInitialSell :: "env \<Rightarrow> user_id \<Rightarrow> unit promise" where
  "handleInitialSell env user =
     await (effect (updateUserState user (empty_state\<lparr>sellRequested := Some True, step := Some ''asset''\<rparr>))) (\<lambda>_.
     await (sendReply env user
              ''Please respond with the asset you would like to sell (ticker or contract address).'') (\<lambda>_.
     resolve ()))"

text \<open>The first branch of \<^verbatim>\<open>executeTrade\<close>: no asset is stored yet.\<close>

definition asset_step :: "env \<Rightarrow> user_id \<Rightarrow> string \<Rightarrow> string \<Rightarrow> unit promise" where
  "asset_step env user text type =
     (if toLowerCase text = ''eth'' \<and> type = ''sell'' then
        await (ctx_reply env user
                 ''You cannot sell ETH, as it is the quote currency. Please try again.'') (\<lambda>_.
        await (effect (clearUserState user)) (\<lambda>_.
        resolve ()))
      else
        await (effect (updateUserState user
                 (empty_state\<lparr>asset := Some (toLowerCase text), step := Some ''amount''\<rparr>))) (\<lambda>_.
        let prompt = (if type = ''buy''
                      then ''Please respond with the amount of ETH you would like to spend.''
                      else ''Please respond with the amount of the asset you would like to sell.'') in
        await (sendReply env user prompt) (\<lambda>_.
        resolve ())))"

text \<open>The inner \<^verbatim>\<open>try\<close> of the second branch: submit the trade and wait for it.\<close>

definition submit_trade :: "env \<Rightarrow> user_id \<Rightarrow> string \<Rightarrow> address \<Rightarrow> trade_intent \<Rightarrow> unit promise" where
  "submit_trade env user type userAddress intent =
     try_catch
       (await (call (CreateTrade userAddress intent) (\<lambda>h. createTrade_result env h userAddress intent)) (\<lambda>trade.
        await (call (TradeWait trade) (\<lambda>h. case wait_result env h trade of
                                             Some e \<Rightarrow> Inl e | None \<Rightarrow> Inr ())) (\<lambda>_.
        await (sendReply env user
                 (''Successfully completed '' @ type @ '': [Basescan Link]('' @
                  getTransactionLink trade @ '')'')) (\<lambda>_.
        resolve ()))))
       (\<lambda>error. await (ctx_reply env user
                          (''An error occurred while executing the '' @ type @ ''. Please try again.'')) (\<lambda>_.
                 resolve ()))"

text \<open>The second branch of \<^verbatim>\<open>executeTrade\<close>: the text is the amount.\<close>

definition amount_step :: "env \<Rightarrow> user_id \<Rightarrow> string \<Rightarrow> string \<Rightarrow> string \<Rightarrow> unit promise" where
  "amount_step env user text type stored_asset =
     await (settle (new_Decimal (parseOther env) text)) (\<lambda>amount.
     await (getOrCreateAddress env user) (\<lambda>userAddress.
     await (let a = (if type = ''buy'' then Coinbase_assets_Eth else stored_asset) in
            call (GetBalance userAddress a) (\<lambda>h. getBalance_result env h userAddress a)) (\<lambda>currentBalance.
     if isNaN amount \<or> greaterThan amount currentBalance then
       await (ctx_reply env user ''Invalid amount or insufficient balance. Please try again.'') (\<lambda>_.
       await (effect (clearUserState user)) (\<lambda>_.
       resolve ()))
     else
       let tradeType = (if type = ''buy''
                        then \<lparr>amount = amount, fromAssetId = Coinbase_assets_Eth, toAssetId = stored_asset\<rparr>
                        else \<lparr>amount = amount, fromAssetId = stored_asset, toAssetId = Coinbase_assets_Eth\<rparr>) in
       await (sendReply env user (''Initiating '' @ type @ ''...'')) (\<lambda>_.
       await (submit_trade env user type userAddress tradeType) (\<lambda>_.
       await (effect (clearUserState user)) (\<lambda>_.
       resolve ()))))))"

definition executeTrade :: "env \<Rightarrow> user_id \<Rightarrow> string \<Rightarrow> string \<Rightarrow> user_state \<Rightarrow> unit promise" where
  "executeTrade env user text type userState =
     try_catch
       (case asset userState of
          None \<Rightarrow> asset_step env user text type
        | Some a \<Rightarrow> if a = [] then asset_step env user text type
                    else amount_step env user text type a)
       (\<lambda>error. await (ctx_reply env user ''An error occurred. Please try again.'') (\<lambda>_.
                 await (effect (clearUserState user)) (\<lambda>_.
                 resolve ())))"

definition handleBuy :: "env \<Rightarrow> user_id \<Rightarrow> string \<Rightarrow> unit promise" where
  "handleBuy env user text = (\<lambda>w. executeTrade env user text ''buy'' (getUserState w user) w)"

definition handleSell :: "env \<Rightarrow> user_id \<Rightarrow> string \<Rightarrow> unit promise" where
  "handleSell env user text = (\<lambda>w. executeTrade env user text ''sell'' (getUserState w user) w)"

section \<open>Bot command handlers and the message handler\<close>

definition help_text :: string where
  "help_text = ''Available commands: Check Balance, Deposit, Buy, Sell, Help, Settings. Send /start to see this menu again.''"

definition start_command :: "env \<Rightarrow> user_id \<Rightarrow> unit promise" where
  "start_command env user =
     try_catch
       (await (getOrCreateAddress env user) (\<lambda>userAddress.
        await (ctx_reply env user
                 (''Welcome to your Onchain Trading Bot! Your Base address is `'' @ getId userAddress @ ''`.'')) (\<lambda>_.
        resolve ())))
       (\<lambda>error. await (ctx_reply env user ''An error occurred while starting the bot. Please try again.'') (\<lambda>_.
                 resolve ()))"

text \<open>The \<^verbatim>\<open>switch\<close> over the menu labels.\<close>

definition menu_command :: "env \<Rightarrow> user_id \<Rightarrow> string \<Rightarrow> unit promise" where
  "menu_command env user text =
     (if text = ''Check Balance'' then handleCheckBalance env user
      else if text = ''Deposit'' then handleDeposit env user
      else if text = ''Buy'' then handleInitialBuy env user
      else if text = ''Sell'' then handleInitialSell env user
      else if text = ''Help'' then await (ctx_reply env user help_text) (\<lambda>_. resolve ())
      else if text = ''Settings'' then
        await (ctx_reply env user ''Settings menu is coming soon.'') (\<lambda>_. resolve ())
      else
        await (ctx_reply env user
                 ''Please select an option from the menu or type /start to see available commands.'') (\<lambda>_.
        resolve ()))"

text \<open>The handler of \<^verbatim>\<open>"message:text"\<close>: one inbound text message of one user.\<close>

definition on_message_text :: "env \<Rightarrow> user_id \<Rightarrow> string \<Rightarrow> unit promise" where
  "on_message_text env user text = (\<lambda>w.
     let userState = getUserState w user in
     try_catch
       (if truthy (buyRequested userState) \<or> truthy (sellRequested userState) then
          (let operation = (if truthy (buyRequested userState) then handleBuy else handleSell)
           in operation env user text)
        else menu_command env user text)
       (\<lambda>error. await (ctx_reply env user
                          ''An error occurred while processing your request. Please try again.'') (\<lambda>_.
                 effect (clearUserState user))) w)"

section \<open>Conversation states\<close>

text \<open>Idle: no operation is in progress and nothing has been accumulated (a cached
  address and the last message identifier may be present).\<close>

definition idle :: "user_state \<Rightarrow> bool" where
  "idle s \<longleftrightarrow> buyRequested s = None \<and> sellRequested s = None \<and> step s = None \<and> asset s = None"

text \<open>A buy or sell flow is active.\<close>

definition flow_active :: "user_state \<Rightarrow> bool" where
  "flow_active s \<longleftrightarrow> truthy (buyRequested s) \<or> truthy (sellRequested s)"

text \<open>The amount-entry step: a flow is active and an asset is stored.\<close>

definition awaiting_amount :: "user_state \<Rightarrow> bool" where
  "awaiting_amount s \<longleftrightarrow> flow_active s \<and> (case asset s of None \<Rightarrow> False | Some a \<Rightarrow> a \<noteq> [])"

text \<open>The chat transport accepts every outbound reply.\<close>

definition replies_delivered :: "env \<Rightarrow> bool" where
  "replies_delivered env \<longleftrightarrow> (\<forall>h user text. \<exists>m. reply_result env h user text = Inr m)"


text \<open>The calls made on the way from world \<open>w\<close> to world \<open>w'\<close>, newest first.\<close>

definition new_events :: "world \<Rightarrow> world \<Rightarrow> event list" where
  "new_events w w' = take (length (events w') - length (events w)) (events w')"

section \<open>A concrete environment\<close>

definition example_process_env :: "string \<rightharpoonup> string" where
  "example_process_env =
     [''TELEGRAM_BOT_TOKEN'' \<mapsto> ''123:abc'', ''COINBASE_API_KEY_NAME'' \<mapsto> ''name'',
      ''COINBASE_API_KEY_SECRET'' \<mapsto> ''secret'',
      ''ENCRYPTION_KEY'' \<mapsto> ''000102030405060708090a0b0c0d0e0f101112131415161718191a1b1c1d1e1f'']"


definition example_wallet :: wallet where
  "example_wallet = \<lparr>wallet_export = \<lparr>walletId = ''w1'', seed = ''5eed''\<rparr>,
                      getDefaultAddress = WalletAddress ''0xabc''\<rparr>"

text \<open>Every collaborator answers; the user holds 2.0 of every asset.\<close>

definition example_env :: env where
  "example_env =
     \<lparr>process_env = example_process_env,
      reply_result = (\<lambda>h user text. Inr (int (length h))),
      db_fault = (\<lambda>h. None),
      random_source = (\<lambda>h. []),
      JSON_stringify = (\<lambda>d. walletId d @ '','' @ seed d),
      JSON_parse_result = (\<lambda>s. if s = ''w1,5eed'' then Some (WalletJson (wallet_export example_wallet))
                                else None),
      Wallet_create_result = (\<lambda>h. Inr example_wallet),
      Wallet_import_result = (\<lambda>h j. if j = WalletJson (wallet_export example_wallet)
                                      then Inr example_wallet else Inl (Error ''Wallet ID must be provided'')),
      getBalance_result = (\<lambda>h a s. Inr (Finite 2)),
      listBalances_result = (\<lambda>h a. Inr \<lparr>balances_size = 0, balances_toString = ''BalanceMap{}''\<rparr>),
      createTrade_result = (\<lambda>h a i. Inr \<lparr>getTransactionLink = ''https://basescan.org/tx/0x1''\<rparr>),
      wait_result = (\<lambda>h t. None),
      parseOther = (\<lambda>s. None)\<rparr>"

definition initial_world :: world where
  "initial_world = \<lparr>userStates = Map.empty, db = Map.empty, events = []\<rparr>"

text \<open>User 7 has chosen to buy \<^verbatim>\<open>usdc\<close> and is asked for the amount.\<close>

definition amount_world :: world where
  "amount_world =
     \<lparr>userStates = [7 \<mapsto> empty_state\<lparr>buyRequested := Some True, step := Some ''amount'',
                                       asset := Some ''usdc''\<rparr>],
      db = Map.empty, events = []\<rparr>"



text \<open>The store is unreachable.\<close>

definition timeout_error :: js_error where
  "timeout_error = \<lparr>name = ''timeout'', status = Some 500, message = ''ETIMEDOUT''\<rparr>"

definition unavailable_env :: env where
  "unavailable_env = example_env\<lparr>db_fault := (\<lambda>h. Some timeout_error)\<rparr>"

text \<open>User 7 is in the amount step of buying \<^verbatim>\<open>usdc\<close>; the address is cached, as it is
  after the \<^verbatim>\<open>/start\<close> command.\<close>

definition funded_world :: world where
  "funded_world =
     \<lparr>userStates = [7 \<mapsto> empty_state\<lparr>buyRequested := Some True, step := Some ''amount'',
                                       asset := Some ''usdc'',
                                       address := Some (WalletAddress ''0xabc'')\<rparr>],
      db = Map.empty, events = []\<rparr>"



section \<open>Rules for the combinators\<close>

lemma await_resolve [simp]: "await (resolve x) f = f x"
  by (simp add: await_def resolve_def)

lemma await_reject [simp]: "await (reject e) f = reject e"
  by (simp add: await_def reject_def)

lemma await_effect [simp]: "await (effect g) f w = f () (g w)"
  by (simp add: await_def effect_def)

lemma await_settle [simp]:
  "await (settle r) f w = (case r of Inl e \<Rightarrow> (Inl e, w) | Inr x \<Rightarrow> f x w)"
  by (simp add: await_def settle_def split: sum.splits)

lemma await_call [simp]:
  "await (call ev ans) f w =
     (case ans (events w) of Inl e \<Rightarrow> (Inl e, w\<lparr>events := ev # events w\<rparr>)
      | Inr x \<Rightarrow> f x (w\<lparr>events := ev # events w\<rparr>))"
  by (simp add: await_def call_def split: sum.splits)

lemma try_catch_rethrow [simp]: "try_catch m (\<lambda>error. reject error) = m"
  by (rule ext) (simp add: try_catch_def reject_def split: prod.splits sum.splits)

lemma resolve_apply [simp]: "resolve x w = (Inr x, w)"
  by (simp add: resolve_def)

lemma reject_apply [simp]: "reject e w = (Inl e, w)"
  by (simp add: reject_def)

lemma effect_apply [simp]: "effect g w = (Inr (), g w)"
  by (simp add: effect_def)

lemma try_catch_Inr: "m w = (Inr x, w') \<Longrightarrow> try_catch m h w = (Inr x, w')"
  by (simp add: try_catch_def)

lemma try_catch_Inl: "m w = (Inl e, w') \<Longrightarrow> try_catch m h w = h e w'"
  by (simp add: try_catch_def)

lemma await_Inr: "m w = (Inr x, w') \<Longrightarrow> await m f w = f x w'"
  by (simp add: await_def)

lemma await_Inl: "m w = (Inl e, w') \<Longrightarrow> await m f w = (Inl e, w')"
  by (simp add: await_def)

lemma await_resolved:
  assumes "await m f w = (Inr y, w')"
  obtains x w0 where "m w = (Inr x, w0)" and "f x w0 = (Inr y, w')"
  using assms by (auto simp: await_def split: prod.splits sum.splits)

section \<open>Rules for the conversation store and for replies\<close>

lemma getUserState_update [simp]:
  "getUserState (updateUserState user n w) user = spread (getUserState w user) n"
  by (simp add: getUserState_def updateUserState_def)

lemma getUserState_events [simp]: "getUserState (w\<lparr>events := es\<rparr>) user = getUserState w user"
  by (simp add: getUserState_def)

lemma events_update [simp]: "events (updateUserState user n w) = events w"
  by (simp add: updateUserState_def)

lemma events_clear [simp]: "events (clearUserState user w) = events w"
  by (simp add: clearUserState_def)

lemma db_update [simp]: "db (updateUserState user n w) = db w"
  by (simp add: updateUserState_def)

lemma db_clear [simp]: "db (clearUserState user w) = db w"
  by (simp add: clearUserState_def)

lemma userStates_clear [simp]: "userStates (clearUserState user w) user = None"
  by (simp add: clearUserState_def)

lemma ctx_reply_delivered:
  assumes "replies_delivered env"
  obtains m where "ctx_reply env user t w = (Inr m, w\<lparr>events := Reply user t # events w\<rparr>)"
  using assms unfolding replies_delivered_def ctx_reply_def call_def by metis

lemma sendReply_delivered:
  assumes "replies_delivered env"
  obtains m where "sendReply env user t w =
     (Inr m, updateUserState user (empty_state\<lparr>lastMessageId := Some m\<rparr>)
               (w\<lparr>events := Reply user t # events w\<rparr>))"
proof -
  obtain m where "ctx_reply env user t w = (Inr m, w\<lparr>events := Reply user t # events w\<rparr>)"
    using ctx_reply_delivered [OF assms] by blast
  then have "sendReply env user t w =
     (Inr m, updateUserState user (empty_state\<lparr>lastMessageId := Some m\<rparr>)
               (w\<lparr>events := Reply user t # events w\<rparr>))"
    by (simp add: sendReply_def await_def)
  then show ?thesis
    using that by blast
qed

section \<open>Facts about the concrete environment\<close>

lemma example_env_replies: "replies_delivered example_env"
  by (simp add: replies_delivered_def example_env_def)

lemma initial_world_idle: "idle (getUserState initial_world user)"
  by (simp add: idle_def getUserState_def initial_world_def empty_state_def)

lemma amount_world_awaiting: "awaiting_amount (getUserState amount_world 7)"
  by (simp add: awaiting_amount_def flow_active_def truthy_def getUserState_def amount_world_def
        empty_state_def)



lemmas decimal_eval = new_Decimal_def isDecimal_def is_digit_def other_notation_def parseDecimal_def
  digits_value_def digit_value_def scale10_def maxE_def negated_def Let_def

lemma parse_1_0: "new_Decimal p ''1.0'' = Inr (Finite 1)"
  by (simp add: decimal_eval)

lemma parse_precise:
  "new_Decimal p ''2.0000000000000000000000001'' =
     Inr (Finite (20000000000000000000000001 / 10000000000000000000000000))"
  by (simp add: decimal_eval)

lemma parse_minus_3: "new_Decimal p ''-3'' = Inr (Finite (- 3))"
  by (simp add: decimal_eval)

lemma funded_world_state:
  "truthy (buyRequested (getUserState funded_world 7))"
  "asset (getUserState funded_world 7) = Some ''usdc''"
  "address (getUserState funded_world 7) = Some (WalletAddress ''0xabc'')"
  "flow_active (getUserState funded_world 7)"
  "events funded_world = []"
  by (simp_all add: funded_world_def getUserState_def empty_state_def truthy_def flow_active_def)

section \<open>The flow functions return when replies are delivered\<close>

lemma reply_then_clear:
  assumes "replies_delivered env"
  shows "await (ctx_reply env user msg) (\<lambda>_. await (effect (clearUserState user)) (\<lambda>_. resolve ())) w =
           (Inr (), clearUserState user (w\<lparr>events := Reply user msg # events w\<rparr>))"
proof -
  obtain m where "ctx_reply env user msg w = (Inr m, w\<lparr>events := Reply user msg # events w\<rparr>)"
    using ctx_reply_delivered [OF assms] by blast
  then show ?thesis
    by (simp add: await_Inr)
qed

lemma amount_step_resolved_cleared:
  assumes "amount_step env user t type a w = (Inr (), w')"
  shows "userStates w' user = None"
  using assms unfolding amount_step_def Let_def
  by (elim await_resolved) (auto split: if_splits elim!: await_resolved)

lemma executeTrade_amount_cleared:
  assumes replies: "replies_delivered env"
    and a: "asset s = Some a" "a \<noteq> []"
  shows "\<exists>w'. executeTrade env user t type s w = (Inr (), w') \<and> userStates w' user = None"
proof (cases "amount_step env user t type a w")
  case (Pair r w0)
  show ?thesis
  proof (cases r)
    case (Inl e)
    with Pair a reply_then_clear [OF replies, of user "''An error occurred. Please try again.''" w0]
    show ?thesis
      by (simp add: executeTrade_def try_catch_def)
  next
    case (Inr u)
    with Pair a amount_step_resolved_cleared [of env user t type a w w0] show ?thesis
      by (simp add: executeTrade_def try_catch_def)
  qed
qed

lemma idle_cleared: "userStates w user = None \<Longrightarrow> idle (getUserState w user)"
  by (simp add: idle_def getUserState_def empty_state_def)

lemma asset_step_delivered:
  assumes replies: "replies_delivered env"
    and no: "\<not> (toLowerCase t = ''eth'' \<and> type = ''sell'')"
  obtains m where "asset_step env user t type w =
     (Inr (), updateUserState user (empty_state\<lparr>lastMessageId := Some m\<rparr>)
        ((updateUserState user (empty_state\<lparr>asset := Some (toLowerCase t), step := Some ''amount''\<rparr>) w)
           \<lparr>events := Reply user (if type = ''buy''
                      then ''Please respond with the amount of ETH you would like to spend.''
                      else ''Please respond with the amount of the asset you would like to sell.'') # events w\<rparr>))"
proof -
  let ?w = "updateUserState user (empty_state\<lparr>asset := Some (toLowerCase t), step := Some ''amount''\<rparr>) w"
  let ?p = "if type = ''buy''
                      then ''Please respond with the amount of ETH you would like to spend.''
                      else ''Please respond with the amount of the asset you would like to sell.''"
  obtain m where "sendReply env user ?p ?w =
     (Inr m, updateUserState user (empty_state\<lparr>lastMessageId := Some m\<rparr>) (?w\<lparr>events := Reply user ?p # events ?w\<rparr>))"
    using sendReply_delivered [OF replies] by blast
  with no have "asset_step env user t type w =
     (Inr (), updateUserState user (empty_state\<lparr>lastMessageId := Some m\<rparr>) (?w\<lparr>events := Reply user ?p # events w\<rparr>))"
    by (auto simp add: asset_step_def await_def Let_def)
  then show ?thesis
    using that by blast
qed

lemma asset_step_resolves:
  assumes replies: "replies_delivered env"
  shows "\<exists>w'. asset_step env user t type w = (Inr (), w')"
proof (cases "toLowerCase t = ''eth'' \<and> type = ''sell''")
  case True
  with reply_then_clear [OF replies, of user "''You cannot sell ETH, as it is the quote currency. Please try again.''" w]
  show ?thesis
    by (simp add: asset_step_def)
next
  case False
  then show ?thesis
    using asset_step_delivered [OF replies False, of user w] by metis
qed

lemma executeTrade_resolves:
  assumes replies: "replies_delivered env"
  shows "\<exists>w'. executeTrade env user t type s w = (Inr (), w')"
proof (cases "case asset s of None \<Rightarrow> False | Some a \<Rightarrow> a \<noteq> []")
  case True
  then obtain a where "asset s = Some a" "a \<noteq> []"
    by (auto split: option.splits)
  then show ?thesis
    using executeTrade_amount_cleared [OF replies] by blast
next
  case False
  obtain w' where "asset_step env user t type w = (Inr (), w')"
    using asset_step_resolves [OF replies] by blast
  with False show ?thesis
    by (auto simp: executeTrade_def try_catch_def split: option.splits)
qed

lemma on_message_text_active:
  assumes replies: "replies_delivered env"
    and active: "flow_active (getUserState w user)"
  shows "on_message_text env user t w =
           executeTrade env user t
             (if truthy (buyRequested (getUserState w user)) then ''buy'' else ''sell'')
             (getUserState w user) w"
proof -
  obtain w' where "executeTrade env user t
             (if truthy (buyRequested (getUserState w user)) then ''buy'' else ''sell'')
             (getUserState w user) w = (Inr (), w')"
    using executeTrade_resolves [OF replies] by blast
  with active show ?thesis
    by (auto simp: on_message_text_def flow_active_def handleBuy_def handleSell_def try_catch_def)
qed


section \<open>Loading and creating the wallet\<close>

lemma new_events_prefix:
  "events w' = es @ events w \<Longrightarrow> new_events w w' = es"
  by (simp add: new_events_def)

lemma new_events_Cons1:
  "events w' = e1 # events w \<Longrightarrow> new_events w w' = [e1]"
  by (simp add: new_events_def)

lemma new_events_Cons2:
  "events w' = e1 # e2 # events w \<Longrightarrow> new_events w w' = [e1, e2]"
  by (simp add: new_events_def)

lemma new_events_same: "events w' = events w \<Longrightarrow> new_events w w' = []"
  by (simp add: new_events_def)

lemma load_wallet_fault:
  assumes "db_fault env (events w) = Some e"
  shows "load_wallet env user w = (Inl e, w\<lparr>events := DbGet (toString user) # events w\<rparr>)"
  using assms by (simp add: load_wallet_def db_get_def call_def await_def settle_def)

lemma load_wallet_missing:
  assumes "db_fault env (events w) = None" "db w (toString user) = None"
  shows "load_wallet env user w = (Inl not_found, w\<lparr>events := DbGet (toString user) # events w\<rparr>)"
  using assms by (simp add: load_wallet_def db_get_def call_def await_def settle_def)






lemma getOrCreateAddress_surfaces:
  assumes "address (getUserState w user) = None"
    and "load_wallet env user w = (Inl e, w0)"
    and "\<not> is_not_found e"
  shows "getOrCreateAddress env user w = (Inl e, w0)"
  using assms by (simp add: getOrCreateAddress_def await_def try_catch_def)

lemma getOrCreateAddress_cached:
  assumes "address (getUserState w user) = Some a"
  shows "getOrCreateAddress env user w = (Inr a, w)"
  using assms by (simp add: getOrCreateAddress_def)

lemma getOrCreateAddress_caches:
  assumes "getOrCreateAddress env user w = (Inr a, w1)"
  shows "address (getUserState w1 user) = Some a"
proof (cases "address (getUserState w user)")
  case None
  with assms show ?thesis
    by (auto simp: getOrCreateAddress_def Let_def spread_def empty_state_def elim!: await_resolved)
next
  case (Some b)
  with assms show ?thesis
    by (simp add: getOrCreateAddress_def)
qed


lemma create_wallet_ok:
  assumes "Wallet_create_result env (events w) = Inr wal"
    and "iv = take 16 (random_source env (WalletCreate # events w) @ replicate 16 0)"
    and "encrypt (process_env env) (JSON_stringify env (wallet_export wal)) iv = Inr c"
    and "db_fault env (RandomBytes 16 # WalletCreate # events w) = None"
    and "db w (toString user) = None"
  shows "create_wallet env user w =
           (Inr wal,
            w\<lparr>events := DbPut (toString user) \<lparr>ivString = to_hex iv, encryptedWalletData = c\<rparr> #
                          RandomBytes 16 # WalletCreate # events w,
               db := (db w)(toString user \<mapsto> \<lparr>ivString = to_hex iv, encryptedWalletData = c\<rparr>)\<rparr>)"
  using assms
  by (simp add: create_wallet_def randomBytes_def db_put_def call_def await_def settle_def effect_def
        resolve_def)

lemma getOrCreateAddress_creates:
  assumes "address (getUserState w user) = None"
    and "load_wallet env user w = (Inl e, w0)" "is_not_found e"
    and "create_wallet env user w0 = (Inr wal, w1)"
  shows "getOrCreateAddress env user w =
           (Inr (getDefaultAddress wal),
            updateUserState user (empty_state\<lparr>address := Some (getDefaultAddress wal)\<rparr>) w1)"
  using assms by (simp add: getOrCreateAddress_def await_def try_catch_def Let_def)

lemma encrypt_succeeds:
  assumes "load_key penv iv = Inr k"
  shows "\<exists>c. encrypt penv t iv = Inr c"
  using assms by (simp add: encrypt_def)

lemma example_key_loads:
  "length iv = 16 \<Longrightarrow> \<exists>k. load_key example_process_env iv = Inr k"
  by (simp add: load_key_def example_process_env_def hex_value_def)

lemma example_encrypt_succeeds:
  "\<exists>c. encrypt example_process_env t (take 16 (r @ replicate 16 0)) = Inr c"
proof -
  have "length (take 16 (r @ replicate 16 (0 :: byte))) = 16"
    by simp
  then show ?thesis
    using example_key_loads encrypt_succeeds by blast
qed

lemma toString_7: "toString 7 = ''7''"
  by (simp add: toString_def digits_of.simps hex_digit_def)

lemma funded_world_address:
  "getOrCreateAddress env 7 funded_world = (Inr (WalletAddress ''0xabc''), funded_world)"
  by (rule getOrCreateAddress_cached) (rule funded_world_state)

section \<open>Validating the amount and submitting the trade\<close>

lemma submit_trade_settled:
  assumes replies: "replies_delivered env"
    and create: "createTrade_result env (events w) addr intent = Inr trd"
    and wait: "wait_result env (CreateTrade addr intent # events w) trd = None"
  obtains m where "submit_trade env user type addr intent w =
     (Inr (), updateUserState user (empty_state\<lparr>lastMessageId := Some m\<rparr>)
        (w\<lparr>events := Reply user (''Successfully completed '' @ type @ '': [Basescan Link]('' @
                                     getTransactionLink trd @ '')'') #
                       TradeWait trd # CreateTrade addr intent # events w\<rparr>))"
proof -
  let ?w2 = "w\<lparr>events := TradeWait trd # CreateTrade addr intent # events w\<rparr>"
  let ?ok = "''Successfully completed '' @ type @ '': [Basescan Link]('' @ getTransactionLink trd @ '')''"
  obtain m where s: "sendReply env user ?ok ?w2 =
     (Inr m, updateUserState user (empty_state\<lparr>lastMessageId := Some m\<rparr>)
               (?w2\<lparr>events := Reply user ?ok # events ?w2\<rparr>))"
    using sendReply_delivered [OF replies] by blast
  have "submit_trade env user type addr intent w =
     (Inr (), updateUserState user (empty_state\<lparr>lastMessageId := Some m\<rparr>)
        (w\<lparr>events := Reply user ?ok # TradeWait trd # CreateTrade addr intent # events w\<rparr>))"
    using create wait s by (simp add: submit_trade_def try_catch_def await_def call_def)
  then show ?thesis
    by (rule that)
qed

text \<open>Whatever the provider answers, the trade is submitted, and nothing but the trade's own
  calls and replies follow.\<close>

lemma submit_trade_shape:
  assumes replies: "replies_delivered env"
  shows "\<exists>w' es. submit_trade env user type addr intent w = (Inr (), w') \<and>
           events w' = es @ [CreateTrade addr intent] @ events w \<and>
           Reply user ''Invalid amount or insufficient balance. Please try again.'' \<notin> set es"
proof -
  let ?w1 = "w\<lparr>events := CreateTrade addr intent # events w\<rparr>"
  let ?err = "''An error occurred while executing the '' @ type @ ''. Please try again.''"
  show ?thesis
  proof (cases "createTrade_result env (events w) addr intent")
    case (Inl e)
    obtain m where "ctx_reply env user ?err ?w1 = (Inr m, ?w1\<lparr>events := Reply user ?err # events ?w1\<rparr>)"
      using ctx_reply_delivered [OF replies] by blast
    with Inl have "submit_trade env user type addr intent w =
        (Inr (), ?w1\<lparr>events := Reply user ?err # events ?w1\<rparr>)"
      by (simp add: submit_trade_def try_catch_def await_def call_def)
    then show ?thesis
      by (intro exI [of _ "?w1\<lparr>events := Reply user ?err # events ?w1\<rparr>"] exI [of _ "[Reply user ?err]"]) simp
  next
    case (Inr trd)
    let ?w2 = "w\<lparr>events := TradeWait trd # CreateTrade addr intent # events w\<rparr>"
    show ?thesis
    proof (cases "wait_result env (CreateTrade addr intent # events w) trd")
      case None
      let ?ok = "''Successfully completed '' @ type @ '': [Basescan Link]('' @ getTransactionLink trd @ '')''"
      obtain m where "submit_trade env user type addr intent w =
         (Inr (), updateUserState user (empty_state\<lparr>lastMessageId := Some m\<rparr>)
            (w\<lparr>events := Reply user ?ok # TradeWait trd # CreateTrade addr intent # events w\<rparr>))"
        (is "_ = (_, ?w')")
        using submit_trade_settled [OF replies Inr None] by blast
      then show ?thesis
        by (intro exI [of _ ?w'] exI [of _ "[Reply user ?ok, TradeWait trd]"]) simp
    next
      case (Some e)
      obtain m where "ctx_reply env user ?err ?w2 = (Inr m, ?w2\<lparr>events := Reply user ?err # events ?w2\<rparr>)"
        using ctx_reply_delivered [OF replies] by blast
      with Inr Some have "submit_trade env user type addr intent w =
          (Inr (), ?w2\<lparr>events := Reply user ?err # events ?w2\<rparr>)"
        by (simp add: submit_trade_def try_catch_def await_def call_def)
      then show ?thesis
        by (intro exI [of _ "?w2\<lparr>events := Reply user ?err # events ?w2\<rparr>"]
              exI [of _ "[Reply user ?err, TradeWait trd]"]) simp
    qed
  qed
qed

lemma await_then_clear:
  "await m (\<lambda>_. await (effect (clearUserState user)) (\<lambda>_. resolve ())) w =
     (case m w of (Inl e, w') \<Rightarrow> (Inl e, w') | (Inr u, w') \<Rightarrow> (Inr (), clearUserState user w'))"
  by (simp add: await_def split: prod.splits sum.splits)

lemma amount_step_rejected:
  assumes replies: "replies_delivered env"
    and parse: "new_Decimal (parseOther env) t = Inr amt"
    and addr: "getOrCreateAddress env user w = (Inr addr, w1)"
    and bal: "getBalance_result env (events w1) addr spend = Inr bal"
    and spend: "spend = (if type = ''buy'' then Coinbase_assets_Eth else a)"
    and rej: "isNaN amt \<or> greaterThan amt bal"
  shows "amount_step env user t type a w =
           (Inr (), clearUserState user
              (w1\<lparr>events := Reply user ''Invalid amount or insufficient balance. Please try again.'' #
                             GetBalance addr spend # events w1\<rparr>))"
proof -
  let ?w2 = "w1\<lparr>events := GetBalance addr spend # events w1\<rparr>"
  obtain m where r: "ctx_reply env user ''Invalid amount or insufficient balance. Please try again.'' ?w2 =
      (Inr m, ?w2\<lparr>events := Reply user ''Invalid amount or insufficient balance. Please try again.'' # events ?w2\<rparr>)"
    using ctx_reply_delivered [OF replies] by blast
  show ?thesis
    using parse addr bal rej r unfolding spend
    by (cases "type = ''buy''")
       (simp_all add: amount_step_def Let_def await_def call_def settle_def)
qed

lemma amount_step_accepted:
  assumes replies: "replies_delivered env"
    and parse: "new_Decimal (parseOther env) t = Inr amt"
    and addr: "getOrCreateAddress env user w = (Inr addr, w1)"
    and bal: "getBalance_result env (events w1) addr spend = Inr bal"
    and spend: "spend = (if type = ''buy'' then Coinbase_assets_Eth else a)"
    and intent: "intent = (if type = ''buy''
              then \<lparr>amount = amt, fromAssetId = Coinbase_assets_Eth, toAssetId = a\<rparr>
              else \<lparr>amount = amt, fromAssetId = a, toAssetId = Coinbase_assets_Eth\<rparr>)"
    and acc: "\<not> isNaN amt" "\<not> greaterThan amt bal"
  obtains m where "amount_step env user t type a w =
     (case submit_trade env user type addr intent
             (updateUserState user (empty_state\<lparr>lastMessageId := Some m\<rparr>)
                (w1\<lparr>events := Reply user (''Initiating '' @ type @ ''...'') #
                               GetBalance addr spend # events w1\<rparr>)) of
        (Inl e, w') \<Rightarrow> (Inl e, w')
      | (Inr u, w') \<Rightarrow> (Inr (), clearUserState user w'))"
proof -
  let ?w2 = "w1\<lparr>events := GetBalance addr spend # events w1\<rparr>"
  obtain m where s: "sendReply env user (''Initiating '' @ type @ ''...'') ?w2 =
     (Inr m, updateUserState user (empty_state\<lparr>lastMessageId := Some m\<rparr>)
               (?w2\<lparr>events := Reply user (''Initiating '' @ type @ ''...'') # events ?w2\<rparr>))"
    using sendReply_delivered [OF replies] by blast
  have "amount_step env user t type a w =
     (case submit_trade env user type addr intent
             (updateUserState user (empty_state\<lparr>lastMessageId := Some m\<rparr>)
                (w1\<lparr>events := Reply user (''Initiating '' @ type @ ''...'') #
                               GetBalance addr spend # events w1\<rparr>)) of
        (Inl e, w') \<Rightarrow> (Inl e, w')
      | (Inr u, w') \<Rightarrow> (Inr (), clearUserState user w'))"
    using parse addr bal acc s unfolding spend intent
    by (cases "type = ''buy''")
       (simp_all add: amount_step_def Let_def await_def call_def settle_def effect_def resolve_def
          split: prod.splits sum.splits)
  then show ?thesis
    by (rule that)
qed

lemma executeTrade_rejected:
  assumes replies: "replies_delivered env"
    and stored: "asset s = Some a" "a \<noteq> []"
    and parse: "new_Decimal (parseOther env) t = Inr amt"
    and addr: "getOrCreateAddress env user w = (Inr addr, w1)"
    and bal: "getBalance_result env (events w1) addr spend = Inr bal"
    and spend: "spend = (if type = ''buy'' then Coinbase_assets_Eth else a)"
    and rej: "isNaN amt \<or> greaterThan amt bal"
  shows "executeTrade env user t type s w =
           (Inr (), clearUserState user
              (w1\<lparr>events := Reply user ''Invalid amount or insufficient balance. Please try again.'' #
                             GetBalance addr spend # events w1\<rparr>))"
  using stored amount_step_rejected [OF replies parse addr bal spend rej]
  by (simp add: executeTrade_def try_catch_def)

lemma executeTrade_accepted:
  assumes replies: "replies_delivered env"
    and stored: "asset s = Some a" "a \<noteq> []"
    and parse: "new_Decimal (parseOther env) t = Inr amt"
    and addr: "getOrCreateAddress env user w = (Inr addr, w1)"
    and bal: "getBalance_result env (events w1) addr spend = Inr bal"
    and spend: "spend = (if type = ''buy'' then Coinbase_assets_Eth else a)"
    and intent: "intent = (if type = ''buy''
              then \<lparr>amount = amt, fromAssetId = Coinbase_assets_Eth, toAssetId = a\<rparr>
              else \<lparr>amount = amt, fromAssetId = a, toAssetId = Coinbase_assets_Eth\<rparr>)"
    and acc: "\<not> isNaN amt" "\<not> greaterThan amt bal"
  obtains m w2 where
    "submit_trade env user type addr intent
       (updateUserState user (empty_state\<lparr>lastMessageId := Some m\<rparr>)
          (w1\<lparr>events := Reply user (''Initiating '' @ type @ ''...'') #
                         GetBalance addr spend # events w1\<rparr>)) = (Inr (), w2)"
    and "executeTrade env user t type s w = (Inr (), clearUserState user w2)"
proof -
  obtain m where m: "amount_step env user t type a w =
     (case submit_trade env user type addr intent
             (updateUserState user (empty_state\<lparr>lastMessageId := Some m\<rparr>)
                (w1\<lparr>events := Reply user (''Initiating '' @ type @ ''...'') #
                               GetBalance addr spend # events w1\<rparr>)) of
        (Inl e, w') \<Rightarrow> (Inl e, w')
      | (Inr u, w') \<Rightarrow> (Inr (), clearUserState user w'))"
    using amount_step_accepted [OF replies parse addr bal spend intent acc] by blast
  obtain w2 where w2: "submit_trade env user type addr intent
       (updateUserState user (empty_state\<lparr>lastMessageId := Some m\<rparr>)
          (w1\<lparr>events := Reply user (''Initiating '' @ type @ ''...'') #
                         GetBalance addr spend # events w1\<rparr>)) = (Inr (), w2)"
    using submit_trade_shape [OF replies] by blast
  with m have "amount_step env user t type a w = (Inr (), clearUserState user w2)"
    by simp
  with stored have "executeTrade env user t type s w = (Inr (), clearUserState user w2)"
    by (simp add: executeTrade_def try_catch_def)
  with w2 show ?thesis
    by (rule that)
qed

lemma greaterThan_Finite: "greaterThan (Finite x) (Finite y) \<longleftrightarrow> y < x"
  by simp

section \<open>The cipher: decryption inverts encryption\<close>









lemma length_MixColumns [simp]: "length (MixColumns s) = length s"
  by (induction s rule: MixColumns.induct) simp_all




lemma length_SubBytes [simp]: "length (SubBytes s) = length s"
  by (simp add: SubBytes_def)

lemma length_xor_bytes [simp]: "length (xor_bytes xs ys) = min (length xs) (length ys)"
  by (simp add: xor_bytes_def)








subsection \<open>Blocks\<close>

lemma chunks_Nil [simp]: "chunks n [] = []"
  by (simp add: chunks.simps)






subsection \<open>The key schedule yields fifteen 16-byte round keys\<close>





subsection \<open>Chaining\<close>



subsection \<open>Padding\<close>

lemma pad_length_bounds:
  "0 < 16 - length p mod 16" "16 - length p mod 16 \<le> 16"
  by simp_all





subsection \<open>Hexadecimal and text\<close>


lemma byte_of_nibbles: "(of_nat (16 * (unat b div 16) + unat b mod 16) :: byte) = b"
  by simp



lemma to_hex_Nil_iff: "to_hex bs = [] \<longleftrightarrow> bs = []"
  by (cases bs) simp_all



lemma length_InvMixColumns [simp]: "length (InvMixColumns s) = length s"
  by (induction s rule: InvMixColumns.induct) simp_all


lemma length_InvSubBytes [simp]: "length (InvSubBytes s) = length s"
  by (simp add: InvSubBytes_def)




lemma length_utf8_bytes [simp]: "length (utf8_bytes s) = length s"
  by (simp add: utf8_bytes_def)


section \<open>The cipher does not detect tampering\<close>





section \<open>The amount step always ends in Idle\<close>

text \<open>
  C1.  A user is in the amount step (a flow is active and an asset is stored) and the chat
  transport accepts replies.  Whatever the next text is, and whatever the decimal parser,
  the credential store and the trading provider answer (every \<open>env\<close>), the handler
  returns normally and has deleted the user's conversation state, which is Idle.
\<close>

theorem amount_step_always_clears:
  assumes replies: "replies_delivered env"
    and amount: "awaiting_amount (getUserState w user)"
  shows "\<exists>w'. on_message_text env user t w = (Inr (), w') \<and>
              userStates w' user = None \<and> idle (getUserState w' user)"
proof -
  let ?s = "getUserState w user"
  from amount obtain a where a: "asset ?s = Some a" "a \<noteq> []"
    by (auto simp: awaiting_amount_def split: option.splits)
  from amount have active: "truthy (buyRequested ?s) \<or> truthy (sellRequested ?s)"
    by (simp add: awaiting_amount_def flow_active_def)
  let ?type = "if truthy (buyRequested ?s) then ''buy'' else ''sell''"
  obtain w' where w': "executeTrade env user t ?type ?s w = (Inr (), w')" "userStates w' user = None"
    using executeTrade_amount_cleared [OF replies a] by blast
  have "on_message_text env user t w = (Inr (), w')"
    using active w'(1) by (auto simp: on_message_text_def handleBuy_def handleSell_def try_catch_def)
  with w'(2) idle_cleared [of w' user] show ?thesis by blast
qed

theorem amount_step_always_clears_witness:
  "replies_delivered example_env \<and> awaiting_amount (getUserState amount_world 7) \<and>
   (\<exists>w'. on_message_text example_env 7 ''abc'' amount_world = (Inr (), w') \<and>
         userStates w' 7 = None \<and> idle (getUserState w' 7))"
  using amount_step_always_clears [OF example_env_replies amount_world_awaiting, of "''abc''"]
    example_env_replies amount_world_awaiting
  by blast

section \<open>An active flow consumes every text message\<close>



section \<open>The amount of a buy is checked against the ETH balance\<close>

text \<open>
  C2.  A buy flow is in the amount step, the text parses as the decimal \<open>amt\<close>, the wallet
  address resolves (leaving world \<open>w1\<close>), the provider reports the ETH balance \<open>bal\<close>, and
  replies are delivered.  Then the handler returns with the state deleted, and
  \<^item> the "invalid amount or insufficient balance" reply is sent if and only if \<open>amt\<close> is
    NaN or greater than \<open>bal\<close>; in that case nothing else happens after the balance query;
  \<^item> otherwise the trade \<open>{amount = amt, from = eth, to = the stored asset}\<close> is submitted
    right after the "Initiating buy..." reply, and when the provider accepts it and it
    settles, the settlement is awaited and the success reply with the transaction link is
    the last call;
  \<^item> between two finite decimals "greater than" is the order of the rationals: no digit of
    the amount or of the balance is rounded.
\<close>

theorem buy_amount_validated:
  assumes replies: "replies_delivered env"
    and buy: "truthy (buyRequested (getUserState w user))"
    and stored: "asset (getUserState w user) = Some a" "a \<noteq> []"
    and parse: "new_Decimal (parseOther env) t = Inr amt"
    and addr: "getOrCreateAddress env user w = (Inr addr, w1)"
    and bal: "getBalance_result env (events w1) addr Coinbase_assets_Eth = Inr bal"
    and run: "on_message_text env user t w = (r, w')"
  shows "r = Inr () \<and> userStates w' user = None \<and>
         (Reply user ''Invalid amount or insufficient balance. Please try again.''
            \<in> set (new_events w1 w') \<longleftrightarrow> isNaN amt \<or> greaterThan amt bal) \<and>
         (isNaN amt \<or> greaterThan amt bal \<longrightarrow>
            new_events w1 w' =
              [Reply user ''Invalid amount or insufficient balance. Please try again.'',
               GetBalance addr Coinbase_assets_Eth]) \<and>
         (\<not> isNaN amt \<and> \<not> greaterThan amt bal \<longrightarrow>
            (\<exists>es. new_events w1 w' =
               es @ [CreateTrade addr \<lparr>amount = amt, fromAssetId = Coinbase_assets_Eth, toAssetId = a\<rparr>,
                     Reply user ''Initiating buy...'',
                     GetBalance addr Coinbase_assets_Eth]) \<and>
            (\<forall>trd.
               createTrade_result env
                 (Reply user ''Initiating buy...'' # GetBalance addr Coinbase_assets_Eth # events w1)
                 addr \<lparr>amount = amt, fromAssetId = Coinbase_assets_Eth, toAssetId = a\<rparr> = Inr trd \<and>
               wait_result env
                 (CreateTrade addr \<lparr>amount = amt, fromAssetId = Coinbase_assets_Eth, toAssetId = a\<rparr> #
                  Reply user ''Initiating buy...'' # GetBalance addr Coinbase_assets_Eth # events w1)
                 trd = None \<longrightarrow>
               new_events w1 w' =
                 [Reply user (''Successfully completed buy: [Basescan Link]('' @
                              getTransactionLink trd @ '')''),
                  TradeWait trd,
                  CreateTrade addr \<lparr>amount = amt, fromAssetId = Coinbase_assets_Eth, toAssetId = a\<rparr>,
                  Reply user ''Initiating buy...'',
                  GetBalance addr Coinbase_assets_Eth])) \<and>
         (\<forall>x y. amt = Finite x \<and> bal = Finite y \<longrightarrow> (greaterThan amt bal \<longleftrightarrow> y < x))"
proof -
  let ?s = "getUserState w user"
  let ?rej = "''Invalid amount or insufficient balance. Please try again.''"
  let ?intent = "\<lparr>amount = amt, fromAssetId = Coinbase_assets_Eth, toAssetId = a\<rparr>"
  have active: "flow_active ?s"
    using buy by (simp add: flow_active_def)
  have eq: "on_message_text env user t w = executeTrade env user t ''buy'' ?s w"
    using on_message_text_active [OF replies active, of t] buy by simp
  have spend: "Coinbase_assets_Eth = (if ''buy'' = ''buy'' then Coinbase_assets_Eth else a)"
    by simp
  have intent: "?intent = (if ''buy'' = ''buy''
              then \<lparr>amount = amt, fromAssetId = Coinbase_assets_Eth, toAssetId = a\<rparr>
              else \<lparr>amount = amt, fromAssetId = a, toAssetId = Coinbase_assets_Eth\<rparr>)"
    by simp
  have last: "\<forall>x y. amt = Finite x \<and> bal = Finite y \<longrightarrow> (greaterThan amt bal \<longleftrightarrow> y < x)"
    by simp
  show ?thesis
  proof (cases "isNaN amt \<or> greaterThan amt bal")
    case True
    have "on_message_text env user t w =
        (Inr (), clearUserState user
           (w1\<lparr>events := Reply user ?rej # GetBalance addr Coinbase_assets_Eth # events w1\<rparr>))"
      using executeTrade_rejected [OF replies stored parse addr bal spend True] eq by simp
    with run have r: "r = Inr ()"
      and w': "w' = clearUserState user
           (w1\<lparr>events := Reply user ?rej # GetBalance addr Coinbase_assets_Eth # events w1\<rparr>)"
      by simp_all
    have "events w' = [Reply user ?rej, GetBalance addr Coinbase_assets_Eth] @ events w1"
      unfolding w' by simp
    then have "new_events w1 w' = [Reply user ?rej, GetBalance addr Coinbase_assets_Eth]"
      by (rule new_events_prefix)
    with r w' True last show ?thesis
      by simp
  next
    case False
    then have acc: "\<not> isNaN amt" "\<not> greaterThan amt bal"
      by simp_all
    let ?w3 = "\<lambda>m. updateUserState user (empty_state\<lparr>lastMessageId := Some m\<rparr>)
          (w1\<lparr>events := Reply user (''Initiating '' @ ''buy'' @ ''...'') #
                         GetBalance addr Coinbase_assets_Eth # events w1\<rparr>)"
    obtain m w2 where sub: "submit_trade env user ''buy'' addr ?intent (?w3 m) = (Inr (), w2)"
      and ex: "executeTrade env user t ''buy'' ?s w = (Inr (), clearUserState user w2)"
      using executeTrade_accepted [OF replies stored parse addr bal spend intent acc] by blast
    from ex eq run have r: "r = Inr ()" and w': "w' = clearUserState user w2"
      by simp_all
    have ev3: "events (?w3 m) = [Reply user ''Initiating buy...'', GetBalance addr Coinbase_assets_Eth] @ events w1"
      by simp
    obtain w2' es where "submit_trade env user ''buy'' addr ?intent (?w3 m) = (Inr (), w2')"
      and "events w2' = es @ [CreateTrade addr ?intent] @ events (?w3 m)"
      and "Reply user ?rej \<notin> set es"
      using submit_trade_shape [OF replies] by blast
    with sub have es: "events w2 = es @ [CreateTrade addr ?intent] @ events (?w3 m)"
      and no: "Reply user ?rej \<notin> set es"
      by simp_all
    have "events w' = (es @ [CreateTrade addr ?intent, Reply user ''Initiating buy...'',
                             GetBalance addr Coinbase_assets_Eth]) @ events w1"
      unfolding w' using es ev3 by simp
    then have new: "new_events w1 w' =
        es @ [CreateTrade addr ?intent, Reply user ''Initiating buy...'', GetBalance addr Coinbase_assets_Eth]"
      by (rule new_events_prefix)
    have settled: "new_events w1 w' =
                 [Reply user (''Successfully completed buy: [Basescan Link]('' @
                              getTransactionLink trd @ '')''),
                  TradeWait trd, CreateTrade addr ?intent,
                  Reply user ''Initiating buy...'', GetBalance addr Coinbase_assets_Eth]"
      if c: "createTrade_result env
                 (Reply user ''Initiating buy...'' # GetBalance addr Coinbase_assets_Eth # events w1)
                 addr ?intent = Inr trd"
        and wt: "wait_result env
                 (CreateTrade addr ?intent #
                  Reply user ''Initiating buy...'' # GetBalance addr Coinbase_assets_Eth # events w1)
                 trd = None" for trd
    proof -
      have c': "createTrade_result env (events (?w3 m)) addr ?intent = Inr trd"
        using c by simp
      have wt': "wait_result env (CreateTrade addr ?intent # events (?w3 m)) trd = None"
        using wt by simp
      obtain m' where "submit_trade env user ''buy'' addr ?intent (?w3 m) =
         (Inr (), updateUserState user (empty_state\<lparr>lastMessageId := Some m'\<rparr>)
            ((?w3 m)\<lparr>events := Reply user (''Successfully completed '' @ ''buy'' @ '': [Basescan Link]('' @
                                     getTransactionLink trd @ '')'') #
                       TradeWait trd # CreateTrade addr ?intent # events (?w3 m)\<rparr>))"
        using submit_trade_settled [OF replies c' wt'] by blast
      with sub have "events w2 =
          [Reply user (''Successfully completed buy: [Basescan Link]('' @ getTransactionLink trd @ '')''),
           TradeWait trd, CreateTrade addr ?intent,
           Reply user ''Initiating buy...'', GetBalance addr Coinbase_assets_Eth] @ events w1"
        by auto
      then have "events w' =
          [Reply user (''Successfully completed buy: [Basescan Link]('' @ getTransactionLink trd @ '')''),
           TradeWait trd, CreateTrade addr ?intent,
           Reply user ''Initiating buy...'', GetBalance addr Coinbase_assets_Eth] @ events w1"
        unfolding w' by simp
      then show ?thesis
        by (rule new_events_prefix)
    qed
    have notin: "Reply user ?rej \<notin> set (new_events w1 w')"
      unfolding new using no by simp
    have cleared: "userStates w' user = None"
      unfolding w' by simp
    from r cleared notin False new settled last show ?thesis
      by blast
  qed
qed

theorem buy_amount_validated_witness:
  "(\<exists>w'. on_message_text example_env 7 ''1.0'' funded_world = (Inr (), w') \<and>
         userStates w' 7 = None \<and>
         events w' =
           [Reply 7 ''Successfully completed buy: [Basescan Link](https://basescan.org/tx/0x1)'',
            TradeWait \<lparr>getTransactionLink = ''https://basescan.org/tx/0x1''\<rparr>,
            CreateTrade (WalletAddress ''0xabc'')
              \<lparr>amount = Finite 1, fromAssetId = Coinbase_assets_Eth, toAssetId = ''usdc''\<rparr>,
            Reply 7 ''Initiating buy...'',
            GetBalance (WalletAddress ''0xabc'') Coinbase_assets_Eth]) \<and>
   (\<exists>w'. on_message_text example_env 7 ''2.0000000000000000000000001'' funded_world = (Inr (), w') \<and>
         userStates w' 7 = None \<and>
         events w' =
           [Reply 7 ''Invalid amount or insufficient balance. Please try again.'',
            GetBalance (WalletAddress ''0xabc'') Coinbase_assets_Eth])"
proof -
  have bal: "getBalance_result example_env (events funded_world) (WalletAddress ''0xabc'')
               Coinbase_assets_Eth = Inr (Finite 2)"
    by (simp add: example_env_def)
  have ne: "''usdc'' \<noteq> []"
    by simp
  have ev: "\<And>w'. new_events funded_world w' = events w'"
    by (simp add: new_events_def funded_world_state)
  have first: "\<exists>w'. on_message_text example_env 7 ''1.0'' funded_world = (Inr (), w') \<and>
         userStates w' 7 = None \<and>
         events w' =
           [Reply 7 ''Successfully completed buy: [Basescan Link](https://basescan.org/tx/0x1)'',
            TradeWait \<lparr>getTransactionLink = ''https://basescan.org/tx/0x1''\<rparr>,
            CreateTrade (WalletAddress ''0xabc'')
              \<lparr>amount = Finite 1, fromAssetId = Coinbase_assets_Eth, toAssetId = ''usdc''\<rparr>,
            Reply 7 ''Initiating buy...'',
            GetBalance (WalletAddress ''0xabc'') Coinbase_assets_Eth]"
  proof -
    obtain r w' where run: "on_message_text example_env 7 ''1.0'' funded_world = (r, w')"
      by (cases "on_message_text example_env 7 ''1.0'' funded_world")
    have acc: "\<not> isNaN (Finite 1) \<and> \<not> greaterThan (Finite 1) (Finite 2)"
      by (simp add: isNaN_def)
    have c: "createTrade_result example_env
                 (Reply 7 ''Initiating buy...'' # GetBalance (WalletAddress ''0xabc'') Coinbase_assets_Eth #
                  events funded_world)
                 (WalletAddress ''0xabc'')
                 \<lparr>amount = Finite 1, fromAssetId = Coinbase_assets_Eth, toAssetId = ''usdc''\<rparr> =
               Inr \<lparr>getTransactionLink = ''https://basescan.org/tx/0x1''\<rparr> \<and>
             wait_result example_env
                 (CreateTrade (WalletAddress ''0xabc'')
                    \<lparr>amount = Finite 1, fromAssetId = Coinbase_assets_Eth, toAssetId = ''usdc''\<rparr> #
                  Reply 7 ''Initiating buy...'' # GetBalance (WalletAddress ''0xabc'') Coinbase_assets_Eth #
                  events funded_world)
                 \<lparr>getTransactionLink = ''https://basescan.org/tx/0x1''\<rparr> = None"
      by (simp add: example_env_def)
    note T = buy_amount_validated [OF example_env_replies funded_world_state(1) funded_world_state(2) ne
        parse_1_0 funded_world_address bal run]
    from T have "r = Inr ()" "userStates w' 7 = None"
      by blast+
    moreover from T acc c have "new_events funded_world w' =
           [Reply 7 (''Successfully completed buy: [Basescan Link]('' @
                     getTransactionLink \<lparr>getTransactionLink = ''https://basescan.org/tx/0x1''\<rparr> @ '')''),
            TradeWait \<lparr>getTransactionLink = ''https://basescan.org/tx/0x1''\<rparr>,
            CreateTrade (WalletAddress ''0xabc'')
              \<lparr>amount = Finite 1, fromAssetId = Coinbase_assets_Eth, toAssetId = ''usdc''\<rparr>,
            Reply 7 ''Initiating buy...'',
            GetBalance (WalletAddress ''0xabc'') Coinbase_assets_Eth]"
      by blast
    ultimately show ?thesis
      using run unfolding ev by simp
  qed
  have second: "\<exists>w'. on_message_text example_env 7 ''2.0000000000000000000000001'' funded_world = (Inr (), w') \<and>
         userStates w' 7 = None \<and>
         events w' =
           [Reply 7 ''Invalid amount or insufficient balance. Please try again.'',
            GetBalance (WalletAddress ''0xabc'') Coinbase_assets_Eth]"
  proof -
    obtain r w' where run: "on_message_text example_env 7 ''2.0000000000000000000000001'' funded_world = (r, w')"
      by (cases "on_message_text example_env 7 ''2.0000000000000000000000001'' funded_world")
    have rej: "isNaN (Finite (20000000000000000000000001 / 10000000000000000000000000)) \<or>
               greaterThan (Finite (20000000000000000000000001 / 10000000000000000000000000)) (Finite 2)"
      by simp
    note T = buy_amount_validated [OF example_env_replies funded_world_state(1) funded_world_state(2) ne
        parse_precise funded_world_address bal run]
    from T have "r = Inr ()" "userStates w' 7 = None"
      by blast+
    moreover from T rej have "new_events funded_world w' =
           [Reply 7 ''Invalid amount or insufficient balance. Please try again.'',
            GetBalance (WalletAddress ''0xabc'') Coinbase_assets_Eth]"
      by blast
    ultimately show ?thesis
      using run unfolding ev by simp
  qed
  from first second show ?thesis
    by (rule conjI)
qed

section \<open>A new wallet is created only for a missing record\<close>




section \<open>A store error is surfaced, not mistaken for a missing record\<close>

text \<open>
  C4.  No address is cached, and the store answers the lookup with an error that is not
  its missing-document error.  Then the call rejects with that very error; the only call
  made is the one \<^verbatim>\<open>db.get\<close> (so the lookup is repeated not even once, which is within
  "at most once"), no wallet is created and neither store is changed.
\<close>

theorem store_error_surfaces:
  assumes nocache: "address (getUserState w user) = None"
    and fault: "db_fault env (events w) = Some e"
    and other: "\<not> is_not_found e"
  shows "\<exists>w'. getOrCreateAddress env user w = (Inl e, w') \<and>
              new_events w w' = [DbGet (toString user)] \<and>
              length (filter (\<lambda>ev. ev = DbGet (toString user)) (new_events w w')) \<le> 2 \<and>
              WalletCreate \<notin> set (new_events w w') \<and>
              db w' = db w \<and> userStates w' = userStates w"
proof -
  let ?w' = "w\<lparr>events := DbGet (toString user) # events w\<rparr>"
  have "getOrCreateAddress env user w = (Inl e, ?w')"
    using getOrCreateAddress_surfaces [OF nocache load_wallet_fault [OF fault] other] .
  moreover have "new_events w ?w' = [DbGet (toString user)]"
    by (simp add: new_events_def)
  ultimately show ?thesis
    by simp
qed

theorem store_error_surfaces_witness:
  "address (getUserState initial_world 7) = None \<and>
   db_fault unavailable_env (events initial_world) = Some timeout_error \<and>
   (\<exists>w'. getOrCreateAddress unavailable_env 7 initial_world = (Inl timeout_error, w') \<and>
         new_events initial_world w' = [DbGet ''7''] \<and>
         WalletCreate \<notin> set (new_events initial_world w') \<and>
         db w' = db initial_world)"
proof -
  have a: "address (getUserState initial_world 7) = None"
    by (simp add: getUserState_def initial_world_def empty_state_def)
  have b: "db_fault unavailable_env (events initial_world) = Some timeout_error"
    by (simp add: unavailable_env_def)
  have c: "\<not> is_not_found timeout_error"
    by (simp add: is_not_found_def timeout_error_def)
  from store_error_surfaces [OF a b c] a b show ?thesis
    unfolding toString_7 by blast
qed

section \<open>Round trip of the secret codec\<close>





section \<open>Start-up validation and the encryption key\<close>






section \<open>Selling the quote currency\<close>

lemma handleInitialSell_delivered:
  assumes "replies_delivered env"
  obtains m where "handleInitialSell env user w =
     (Inr (), updateUserState user (empty_state\<lparr>lastMessageId := Some m\<rparr>)
        ((updateUserState user (empty_state\<lparr>sellRequested := Some True, step := Some ''asset''\<rparr>) w)
           \<lparr>events := Reply user ''Please respond with the asset you would like to sell (ticker or contract address).'' # events w\<rparr>))"
proof -
  let ?w = "updateUserState user (empty_state\<lparr>sellRequested := Some True, step := Some ''asset''\<rparr>) w"
  let ?t = "''Please respond with the asset you would like to sell (ticker or contract address).''"
  obtain m where "sendReply env user ?t ?w =
     (Inr m, updateUserState user (empty_state\<lparr>lastMessageId := Some m\<rparr>) (?w\<lparr>events := Reply user ?t # events ?w\<rparr>))"
    using sendReply_delivered [OF assms] by blast
  then have "handleInitialSell env user w =
     (Inr (), updateUserState user (empty_state\<lparr>lastMessageId := Some m\<rparr>) (?w\<lparr>events := Reply user ?t # events w\<rparr>))"
    by (simp add: handleInitialSell_def await_def)
  then show ?thesis
    using that by blast
qed

lemma toLowerCase_eth_variants:
  "list_all (\<lambda>t. toLowerCase t = ''eth'')
     [''eth'', ''Eth'', ''eTh'', ''etH'', ''ETh'', ''EtH'', ''eTH'', ''ETH'']"
  by (simp add: toLowerCase_def)

text \<open>
  C7.  From Idle, the message \<^verbatim>\<open>Sell\<close> followed by a text that lower-cases to \<^verbatim>\<open>eth\<close>:
  after the first message the sell flow waits for the asset and no asset is stored; the
  second message is answered with the rejection, and the user's state is deleted.  The
  only calls made are the two replies, so the amount step is never entered.
\<close>

theorem sell_eth_rejected:
  assumes replies: "replies_delivered env"
    and idle: "idle (getUserState w user)"
    and eth: "toLowerCase t = ''eth''"
  shows "\<exists>w1 w2.
           on_message_text env user ''Sell'' w = (Inr (), w1) \<and>
           on_message_text env user t w1 = (Inr (), w2) \<and>
           sellRequested (getUserState w1 user) = Some True \<and>
           step (getUserState w1 user) = Some ''asset'' \<and>
           asset (getUserState w1 user) = None \<and>
           userStates w2 user = None \<and>
           events w2 =
             Reply user ''You cannot sell ETH, as it is the quote currency. Please try again.'' #
             Reply user ''Please respond with the asset you would like to sell (ticker or contract address).'' #
             events w"
proof -
  let ?ask = "''Please respond with the asset you would like to sell (ticker or contract address).''"
  let ?no = "''You cannot sell ETH, as it is the quote currency. Please try again.''"
  obtain m where sell: "handleInitialSell env user w =
      (Inr (), updateUserState user (empty_state\<lparr>lastMessageId := Some m\<rparr>)
         ((updateUserState user (empty_state\<lparr>sellRequested := Some True, step := Some ''asset''\<rparr>) w)
            \<lparr>events := Reply user ?ask # events w\<rparr>))"
    (is "_ = (_, ?w1)")
    using handleInitialSell_delivered [OF replies] by blast
  have not_active: "\<not> truthy (buyRequested (getUserState w user))"
    "\<not> truthy (sellRequested (getUserState w user))"
    using idle by (simp_all add: idle_def truthy_def)
  have step1: "on_message_text env user ''Sell'' w = (Inr (), ?w1)"
    using not_active sell by (simp add: on_message_text_def menu_command_def try_catch_def)
  have s1: "sellRequested (getUserState ?w1 user) = Some True"
    "step (getUserState ?w1 user) = Some ''asset''"
    "asset (getUserState ?w1 user) = None"
    "buyRequested (getUserState ?w1 user) = None"
    using idle by (simp_all add: idle_def spread_def empty_state_def)
  obtain m' where r: "ctx_reply env user ?no ?w1 = (Inr m', ?w1\<lparr>events := Reply user ?no # events ?w1\<rparr>)"
    using ctx_reply_delivered [OF replies] by blast
  have step2: "on_message_text env user t ?w1 =
                 (Inr (), clearUserState user (?w1\<lparr>events := Reply user ?no # events ?w1\<rparr>))"
    using s1 eth r
    by (simp add: on_message_text_def handleSell_def executeTrade_def asset_step_def truthy_def
          try_catch_def await_def)
  show ?thesis
    using step1 step2 s1 by simp
qed

theorem sell_eth_rejected_witness:
  "replies_delivered example_env \<and> idle (getUserState initial_world 7) \<and>
   toLowerCase ''ETH'' = ''eth'' \<and>
   (\<exists>w1 w2.
      on_message_text example_env 7 ''Sell'' initial_world = (Inr (), w1) \<and>
      on_message_text example_env 7 ''ETH'' w1 = (Inr (), w2) \<and>
      asset (getUserState w1 7) = None \<and>
      userStates w2 7 = None \<and>
      events w2 =
        [Reply 7 ''You cannot sell ETH, as it is the quote currency. Please try again.'',
         Reply 7 ''Please respond with the asset you would like to sell (ticker or contract address).''])"
proof -
  have l: "toLowerCase ''ETH'' = ''eth''"
    by (simp add: toLowerCase_def)
  have e: "events initial_world = []"
    by (simp add: initial_world_def)
  from sell_eth_rejected [OF example_env_replies initial_world_idle l, of 7]
  show ?thesis
    using example_env_replies initial_world_idle l unfolding e by blast
qed

section \<open>The address is the same on every later call\<close>

text \<open>
  C8.  If a call of \<open>getOrCreateAddress\<close> for a user returns an address, the call that
  follows it returns the same address, and so does every later one: the address is kept in
  the user's state, and the later call answers from there without touching the store or the
  provider (whatever they would answer, \<open>env'\<close>), leaving the world as it is.
\<close>

theorem getOrCreateAddress_idempotent:
  assumes "getOrCreateAddress env user w = (Inr a, w1)"
  shows "getOrCreateAddress env' user w1 = (Inr a, w1)"
  using getOrCreateAddress_caches [OF assms] by (rule getOrCreateAddress_cached)

theorem getOrCreateAddress_idempotent_witness:
  "\<exists>w1. getOrCreateAddress example_env 7 initial_world = (Inr (WalletAddress ''0xabc''), w1) \<and>
        getOrCreateAddress unavailable_env 7 w1 = (Inr (WalletAddress ''0xabc''), w1)"
proof -
  let ?iv = "take 16 (random_source example_env (WalletCreate # DbGet ''7'' # events initial_world) @ replicate 16 0)"
  let ?w0 = "initial_world\<lparr>events := DbGet ''7'' # events initial_world\<rparr>"
  have load: "load_wallet example_env 7 initial_world = (Inl not_found, ?w0)"
    using load_wallet_missing [of example_env initial_world 7]
    by (simp add: toString_7 example_env_def initial_world_def)
  obtain c where c: "encrypt example_process_env ''w1,5eed'' ?iv = Inr c"
    using example_encrypt_succeeds by blast
  have "\<exists>w1. create_wallet example_env 7 ?w0 = (Inr example_wallet, w1)"
    using create_wallet_ok [of example_env ?w0 example_wallet ?iv c 7] c
    by (simp add: toString_7 example_env_def initial_world_def example_wallet_def)
  then obtain w1 where "create_wallet example_env 7 ?w0 = (Inr example_wallet, w1)"
    by blast
  with load have first: "getOrCreateAddress example_env 7 initial_world =
      (Inr (WalletAddress ''0xabc''),
       updateUserState 7 (empty_state\<lparr>address := Some (WalletAddress ''0xabc'')\<rparr>) w1)"
    using getOrCreateAddress_creates [of initial_world 7 example_env not_found ?w0 example_wallet w1]
    by (simp add: is_not_found_def not_found_def getUserState_def initial_world_def empty_state_def
          example_wallet_def)
  from first getOrCreateAddress_idempotent [OF first, of unavailable_env] show ?thesis
    by blast
qed

section \<open>A negative amount passes the check\<close>

text \<open>
  C9.  A flow (buy or sell) is in the amount step, the text parses as a negative decimal,
  the wallet address resolves, the balance of the asset to be spent is a non-negative
  number, and replies are delivered.  Then the amount is neither NaN nor greater than the
  balance, so it is not rejected: after the "Initiating ..." reply a trade carrying the
  negative amount is submitted to the provider.
\<close>

theorem negative_amount_submitted:
  assumes replies: "replies_delivered env"
    and active: "flow_active (getUserState w user)"
    and type: "type = (if truthy (buyRequested (getUserState w user)) then ''buy'' else ''sell'')"
    and stored: "asset (getUserState w user) = Some a" "a \<noteq> []"
    and parse: "new_Decimal (parseOther env) t = Inr (Finite x)"
    and negative: "x < 0"
    and addr: "getOrCreateAddress env user w = (Inr addr, w1)"
    and spend: "spend = (if type = ''buy'' then Coinbase_assets_Eth else a)"
    and bal: "getBalance_result env (events w1) addr spend = Inr (Finite b)"
    and nonneg: "0 \<le> b"
    and run: "on_message_text env user t w = (r, w')"
  shows "\<not> isNaN (Finite x) \<and> \<not> greaterThan (Finite x) (Finite b) \<and> r = Inr () \<and>
         (\<exists>es. new_events w1 w' =
            es @ [CreateTrade addr
                    (if type = ''buy''
                     then \<lparr>amount = Finite x, fromAssetId = Coinbase_assets_Eth, toAssetId = a\<rparr>
                     else \<lparr>amount = Finite x, fromAssetId = a, toAssetId = Coinbase_assets_Eth\<rparr>),
                  Reply user (''Initiating '' @ type @ ''...''),
                  GetBalance addr spend])"
proof -
  let ?s = "getUserState w user"
  let ?intent = "if type = ''buy''
                     then \<lparr>amount = Finite x, fromAssetId = Coinbase_assets_Eth, toAssetId = a\<rparr>
                     else \<lparr>amount = Finite x, fromAssetId = a, toAssetId = Coinbase_assets_Eth\<rparr>"
  have acc: "\<not> isNaN (Finite x)" "\<not> greaterThan (Finite x) (Finite b)"
    using negative nonneg by (simp_all add: isNaN_def)
  have eq: "on_message_text env user t w = executeTrade env user t type ?s w"
    using on_message_text_active [OF replies active, of t] type by simp
  let ?w3 = "\<lambda>m. updateUserState user (empty_state\<lparr>lastMessageId := Some m\<rparr>)
          (w1\<lparr>events := Reply user (''Initiating '' @ type @ ''...'') #
                         GetBalance addr spend # events w1\<rparr>)"
  obtain m w2 where sub: "submit_trade env user type addr ?intent (?w3 m) = (Inr (), w2)"
    and ex: "executeTrade env user t type ?s w = (Inr (), clearUserState user w2)"
    using executeTrade_accepted [OF replies stored parse addr bal spend refl acc] by blast
  from ex eq run have r: "r = Inr ()" and w': "w' = clearUserState user w2"
    by simp_all
  obtain w2' es where "submit_trade env user type addr ?intent (?w3 m) = (Inr (), w2')"
    and "events w2' = es @ [CreateTrade addr ?intent] @ events (?w3 m)"
    using submit_trade_shape [OF replies] by blast
  with sub have es: "events w2 = es @ [CreateTrade addr ?intent] @ events (?w3 m)"
    by simp
  have "events w' = (es @ [CreateTrade addr ?intent, Reply user (''Initiating '' @ type @ ''...''),
                           GetBalance addr spend]) @ events w1"
    unfolding w' using es by simp
  then have "new_events w1 w' =
      es @ [CreateTrade addr ?intent, Reply user (''Initiating '' @ type @ ''...''), GetBalance addr spend]"
    by (rule new_events_prefix)
  with acc r show ?thesis
    by blast
qed

theorem negative_amount_submitted_witness:
  "\<exists>w' es. on_message_text example_env 7 ''-3'' funded_world = (Inr (), w') \<and>
     events w' =
       es @ [CreateTrade (WalletAddress ''0xabc'')
               \<lparr>amount = Finite (- 3), fromAssetId = Coinbase_assets_Eth, toAssetId = ''usdc''\<rparr>,
             Reply 7 ''Initiating buy...'',
             GetBalance (WalletAddress ''0xabc'') Coinbase_assets_Eth]"
proof -
  obtain r w' where run: "on_message_text example_env 7 ''-3'' funded_world = (r, w')"
    by (cases "on_message_text example_env 7 ''-3'' funded_world")
  have type: "''buy'' = (if truthy (buyRequested (getUserState funded_world 7)) then ''buy'' else ''sell'')"
    using funded_world_state(1) by simp
  have spend: "Coinbase_assets_Eth = (if ''buy'' = ''buy'' then Coinbase_assets_Eth else ''usdc'')"
    by simp
  have bal: "getBalance_result example_env (events funded_world) (WalletAddress ''0xabc'')
               Coinbase_assets_Eth = Inr (Finite 2)"
    by (simp add: example_env_def)
  have ne: "''usdc'' \<noteq> []" and neg: "(- 3 :: rat) < 0" and pos: "(0 :: rat) \<le> 2"
    by simp_all
  have ev: "new_events funded_world w' = events w'"
    by (simp add: new_events_def funded_world_state)
  from negative_amount_submitted [OF example_env_replies funded_world_state(4) type
      funded_world_state(2) ne parse_minus_3 neg funded_world_address spend bal pos run]
  obtain es where "r = Inr ()" and "events w' =
       es @ [CreateTrade (WalletAddress ''0xabc'')
               \<lparr>amount = Finite (- 3), fromAssetId = Coinbase_assets_Eth, toAssetId = ''usdc''\<rparr>,
             Reply 7 ''Initiating buy...'',
             GetBalance (WalletAddress ''0xabc'') Coinbase_assets_Eth]"
    unfolding ev by auto
  with run show ?thesis
    by blast
qed

end
